theory Spec2Isabelle
  imports Main "HOL-Library.AList" "HOL-Library.Sublist" "HOL-Library.Word"
begin

section \<open>PdfVault backend: a shallow embedding of server.js\<close>

text \<open>
  The backend is one file, \<^verbatim>\<open>src/backend/server.js\<close>. Its handlers are callbacks handed to
  Express, multer and Node's \<^verbatim>\<open>fs\<close>. The callbacks are embedded as HOL functions that take the
  response object and return it updated. What the libraries do around the callbacks
  (multipart parsing, the order in which multer calls \<^verbatim>\<open>fileFilter\<close> and the storage engine,
  the directory on disk) is written out as explicit functions over an explicit file-system
  state, so that every write and every error is a value of the model.
\<close>

subsection \<open>JSON values and the response object\<close>

type_synonym bytes = "8 word list"

datatype json =
    JBool bool
  | JString string
  | JArray "json list"
  | JObject "(string \<times> json) list"

datatype body =
    NoBody
  | JsonBody json
  | HtmlBody string
  | FileBody bytes

record response =
  statusCode :: nat
  headers :: "(string \<times> string) list"
  body :: body

text \<open>A fresh Node response: status 200, nothing set, nothing sent.\<close>

definition new_response :: response where
  "new_response = \<lparr> statusCode = 200, headers = [], body = NoBody \<rparr>"

definition setHeader :: "string \<Rightarrow> string \<Rightarrow> response \<Rightarrow> response" where
  "setHeader name v res = res\<lparr> headers := AList.update name v (headers res) \<rparr>"

definition getHeader :: "string \<Rightarrow> response \<Rightarrow> string option" where
  "getHeader name res = map_of (headers res) name"

definition res_status :: "nat \<Rightarrow> response \<Rightarrow> response" where
  "res_status code res = res\<lparr> statusCode := code \<rparr>"

text \<open>
  \<^verbatim>\<open>res.json(obj)\<close> and \<^verbatim>\<open>res.send(html)\<close> of Express: they fill in the content type when
  the handler has not set one, and send the body. No other header is removed.
\<close>

definition default_content_type :: "string \<Rightarrow> response \<Rightarrow> response" where
  "default_content_type ct res =
     (case getHeader ''Content-Type'' res of
        None \<Rightarrow> setHeader ''Content-Type'' ct res
      | Some _ \<Rightarrow> res)"

definition res_json :: "json \<Rightarrow> response \<Rightarrow> response" where
  "res_json obj res =
     (default_content_type ''application/json; charset=utf-8'' res)\<lparr> body := JsonBody obj \<rparr>"

definition res_send :: "string \<Rightarrow> response \<Rightarrow> response" where
  "res_send html res =
     (default_content_type ''text/html; charset=utf-8'' res)\<lparr> body := HtmlBody html \<rparr>"

subsection \<open>Configuration (server.js, line 9)\<close>

text \<open>
  \<^verbatim>\<open>const port = process.env.PORT || 3000\<close>: the environment variable when it is set to a
  non-empty string, the number 3000 otherwise. The port is only ever spliced into strings,
  so the model keeps its text.
\<close>

record config =
  env_PORT :: "string option"

definition port :: "config \<Rightarrow> string" where
  "port cfg =
     (case env_PORT cfg of
        None \<Rightarrow> ''3000''
      | Some s \<Rightarrow> if s = [] then ''3000'' else s)"

subsection \<open>The storage directory on disk\<close>

text \<open>
  \<^verbatim>\<open>UPLOAD_DIR\<close> is the only path the program touches. The model holds what is at that path
  (nothing, a regular file with its bytes, or a flat directory with its entries in the
  order in which the file system enumerates them), whether its parent directory allows an
  entry to be created, and the place in the enumeration at which the file system puts an
  entry that is new: \<^verbatim>\<open>fs.readdir\<close> promises no order, so that place is the file system's
  choice and any number is possible.
\<close>

datatype node =
    Missing
  | RegularFile bytes
  | Directory "(string \<times> bytes) list"

datatype parent_state = ParentAbsent | ParentDenied | ParentOk

datatype errno = ENOENT | EACCES | EEXIST | ENOTDIR

record fs_state =
  parent :: parent_state
  upload_dir :: node
  new_entry_at :: nat

definition existsSync :: "fs_state \<Rightarrow> bool" where
  "existsSync fs = (upload_dir fs \<noteq> Missing)"

text \<open>
  \<^verbatim>\<open>fs.mkdirSync(path, {recursive})\<close>. Without \<open>recursive\<close> an existing path is an error
  and a missing parent is an error; with it, parents are created and an existing directory
  is accepted. A thrown exception is the \<open>Inl\<close> branch.
\<close>

definition mkdirSync :: "bool \<Rightarrow> fs_state \<Rightarrow> errno + fs_state" where
  "mkdirSync recursive fs =
     (case upload_dir fs of
        Directory es \<Rightarrow> if recursive then Inr fs else Inl EEXIST
      | RegularFile b \<Rightarrow> Inl EEXIST
      | Missing \<Rightarrow>
          (case parent fs of
             ParentOk \<Rightarrow> Inr (fs\<lparr> upload_dir := Directory [] \<rparr>)
           | ParentDenied \<Rightarrow> Inl EACCES
           | ParentAbsent \<Rightarrow>
               if recursive then Inr (fs\<lparr> parent := ParentOk, upload_dir := Directory [] \<rparr>)
               else Inl ENOENT))"

definition readdir :: "fs_state \<Rightarrow> errno + string list" where
  "readdir fs =
     (case upload_dir fs of
        Directory es \<Rightarrow> Inr (map fst es)
      | Missing \<Rightarrow> Inl ENOENT
      | RegularFile b \<Rightarrow> Inl ENOTDIR)"

text \<open>
  Writing a file under a name replaces the content of the entry of that name where it
  stands, or puts a new entry where the file system enumerates it.
\<close>

definition put_entry :: "nat \<Rightarrow> string \<Rightarrow> bytes \<Rightarrow> (string \<times> bytes) list \<Rightarrow> (string \<times> bytes) list" where
  "put_entry k name content es =
     (if name \<in> set (map fst es) then AList.update name content es
      else take k es @ (name, content) # drop k es)"

definition write_file :: "string \<Rightarrow> bytes \<Rightarrow> fs_state \<Rightarrow> errno + fs_state" where
  "write_file name content fs =
     (case upload_dir fs of
        Directory es \<Rightarrow>
          Inr (fs\<lparr> upload_dir := Directory (put_entry (new_entry_at fs) name content es) \<rparr>)
      | Missing \<Rightarrow> Inl ENOENT
      | RegularFile b \<Rightarrow> Inl ENOTDIR)"

definition unlink :: "string \<Rightarrow> fs_state \<Rightarrow> fs_state" where
  "unlink name fs =
     (case upload_dir fs of
        Directory es \<Rightarrow> fs\<lparr> upload_dir := Directory (AList.delete name es) \<rparr>
      | _ \<Rightarrow> fs)"

definition read_file :: "string \<Rightarrow> fs_state \<Rightarrow> bytes option" where
  "read_file name fs =
     (case upload_dir fs of
        Directory es \<Rightarrow> map_of es name
      | _ \<Rightarrow> None)"

definition file_names :: "fs_state \<Rightarrow> string list" where
  "file_names fs = (case upload_dir fs of Directory es \<Rightarrow> map fst es | _ \<Rightarrow> [])"

text \<open>The bytes at the storage path itself, when a regular file stands there.\<close>

definition read_root :: "fs_state \<Rightarrow> bytes option" where
  "read_root fs = (case upload_dir fs of RegularFile b \<Rightarrow> Some b | _ \<Rightarrow> None)"

definition is_directory :: "fs_state \<Rightarrow> bool" where
  "is_directory fs = (case upload_dir fs of Directory es \<Rightarrow> True | _ \<Rightarrow> False)"

subsection \<open>Listing endpoint (server.js, lines 100 to 121)\<close>

text \<open>\<^verbatim>\<open>String.prototype.endsWith\<close>: the last \<open>length t\<close> characters of \<open>s\<close> are \<open>t\<close>.\<close>

definition endsWith :: "string \<Rightarrow> string \<Rightarrow> bool" where
  "endsWith s t = (length t \<le> length s \<and> drop (length s - length t) s = t)"

definition pdf_entry :: "config \<Rightarrow> string \<Rightarrow> json" where
  "pdf_entry cfg file =
     JObject [(''name'', JString file),
              (''url'', JString (''http://localhost:'' @ port cfg @ ''/pdfs/'' @ file))]"

definition pdfList :: "config \<Rightarrow> string list \<Rightarrow> json list" where
  "pdfList cfg files = map (pdf_entry cfg) (filter (\<lambda>file. endsWith file ''.pdf'') files)"

text \<open>
  The callback of \<^verbatim>\<open>fs.readdir\<close>: the error branch answers 500 and returns, the other one
  answers the filtered list. The \<^verbatim>\<open>console.error\<close> line writes to the log only.
\<close>

definition get_pdfs :: "config \<Rightarrow> fs_state \<Rightarrow> response \<Rightarrow> response" where
  "get_pdfs cfg fs res =
     (case readdir fs of
        Inl err \<Rightarrow>
          res_json (JObject [(''success'', JBool False),
                             (''message'', JString ''Failed to retrieve files.'')])
                   (res_status 500 res)
      | Inr files \<Rightarrow>
          res_json (JObject [(''success'', JBool True),
                             (''pdfs'', JArray (pdfList cfg files))])
                   res)"

subsection \<open>Storage directory bootstrap (server.js, lines 19 to 21)\<close>

definition bootstrap :: "fs_state \<Rightarrow> errno + fs_state" where
  "bootstrap fs = (if \<not> existsSync fs then mkdirSync False fs else Inr fs)"

text \<open>
  The script runs from top to bottom. An exception thrown by \<^verbatim>\<open>mkdirSync\<close> is caught
  nowhere, so Node ends the process before line 127 (\<^verbatim>\<open>app.listen\<close>) is reached.
\<close>

datatype process = Crashed errno | Serving fs_state

definition start_server :: "fs_state \<Rightarrow> process" where
  "start_server fs = (case bootstrap fs of Inl e \<Rightarrow> Crashed e | Inr fs' \<Rightarrow> Serving fs')"

subsection \<open>Numbers as text\<close>

text \<open>
  \<^verbatim>\<open>Date.now() + '-'\<close> converts the number to its decimal text. \<^verbatim>\<open>Date.now()\<close> is an
  integer far below \<open>10^21\<close>, where JavaScript prints every digit; a clock set before 1970
  gives a negative one, printed with a minus sign.
\<close>

definition digit_char :: "nat \<Rightarrow> char" where
  "digit_char d = ''0123456789'' ! d"

fun show_nat :: "nat \<Rightarrow> string" where
  "show_nat n = (if n < 10 then [digit_char n] else show_nat (n div 10) @ [digit_char (n mod 10)])"

declare show_nat.simps [simp del]

definition show_int :: "int \<Rightarrow> string" where
  "show_int i = (if i < 0 then CHR ''-'' # show_nat (nat (- i)) else show_nat (nat i))"

subsection \<open>Upload endpoint: the callbacks of server.js (lines 24 to 44)\<close>

text \<open>
  The file object that multer hands to the callbacks: the field name of the part, the file
  name the client sent (busboy keeps its last path component only), the declared MIME type,
  and the stream of the part's bytes.
\<close>

record file_part =
  fieldname :: string
  originalname :: string
  mimetype :: string
  stream :: bytes

text \<open>
  An error handed to the callback of \<^verbatim>\<open>upload\<close> is either a \<^verbatim>\<open>multer.MulterError\<close>, with
  one of multer's codes and the message multer gives that code, or any other \<^verbatim>\<open>Error\<close>
  with its message.
\<close>

datatype multer_code =
    LIMIT_PART_COUNT
  | LIMIT_FILE_SIZE
  | LIMIT_FILE_COUNT
  | LIMIT_FIELD_KEY
  | LIMIT_FIELD_VALUE
  | LIMIT_FIELD_COUNT
  | LIMIT_UNEXPECTED_FILE
  | MISSING_FIELD_NAME

datatype upload_error = MulterError multer_code | Error string

definition code_message :: "multer_code \<Rightarrow> string" where
  "code_message c =
     (case c of
        LIMIT_PART_COUNT \<Rightarrow> ''Too many parts''
      | LIMIT_FILE_SIZE \<Rightarrow> ''File too large''
      | LIMIT_FILE_COUNT \<Rightarrow> ''Too many files''
      | LIMIT_FIELD_KEY \<Rightarrow> ''Field name too long''
      | LIMIT_FIELD_VALUE \<Rightarrow> ''Field value too long''
      | LIMIT_FIELD_COUNT \<Rightarrow> ''Too many fields''
      | LIMIT_UNEXPECTED_FILE \<Rightarrow> ''Unexpected field''
      | MISSING_FIELD_NAME \<Rightarrow> ''Field name missing'')"

fun message :: "upload_error \<Rightarrow> string" where
  "message (MulterError c) = code_message c"
| "message (Error m) = m"

text \<open>\<^verbatim>\<open>filename: cb(null, Date.now() + '-' + file.originalname)\<close>\<close>

definition storage_filename :: "int \<Rightarrow> 'a file_part_scheme \<Rightarrow> string" where
  "storage_filename now file = show_int now @ ''-'' @ originalname file"

text \<open>
  \<^verbatim>\<open>fileFilter\<close>: an error for every declared type other than \<^verbatim>\<open>application/pdf\<close>,
  acceptance otherwise.
\<close>

definition fileFilter :: "'a file_part_scheme \<Rightarrow> upload_error + bool" where
  "fileFilter file =
     (if mimetype file \<noteq> ''application/pdf'' then Inl (Error ''Only PDF files are allowed!'')
      else Inr True)"

subsection \<open>Upload endpoint: multer around the callbacks\<close>

text \<open>
  \<^verbatim>\<open>multer({storage, fileFilter}).single('pdfFile')\<close> is library code. The model follows its
  request loop: busboy reports the parts of the body one after the other; a text field
  whose name or value was cut at a size limit is a \<^verbatim>\<open>MulterError\<close>; a file part without a
  file name is skipped; a file part beyond the one allowed in field \<^verbatim>\<open>pdfFile\<close> is a
  \<^verbatim>\<open>MulterError\<close>; then \<^verbatim>\<open>fileFilter\<close> is asked, and only on its acceptance the disk
  storage engine asks \<^verbatim>\<open>destination\<close> and \<^verbatim>\<open>filename\<close> and writes the bytes. A parse error
  of busboy is a plain \<^verbatim>\<open>Error\<close>. On the first error multer deletes what the request has
  stored so far and calls back with the error.

  \<open>FieldEv name nameTruncated valueTruncated\<close> is a text field with busboy's two flags;
  the name is \<open>None\<close> when busboy hands over no name for the part, the case multer tests
  first (\<^verbatim>\<open>fieldname == null\<close>). server.js configures no limits, so busboy's defaults apply:
  a value of 1 MB or more is cut and flagged; the multipart parser never flags a name, but
  multer tests that flag too. The value itself only goes to \<^verbatim>\<open>req.body\<close>, which server.js
  never reads, so the model leaves it out. \<open>ErrorEv msg\<close> is busboy's \<^verbatim>\<open>error\<close> event.
\<close>

datatype busboy_event =
    FieldEv "string option" bool bool
  | FileEv file_part
  | ErrorEv string

record multer_file = file_part +
  filename :: string
  size :: nat

record mstate =
  disk :: fs_state
  filesLeft :: nat
  uploadedFiles :: "multer_file list"
  req_file :: "multer_file option"

text \<open>The text of a file-system error (Node appends the system call and the path).\<close>

definition errno_message :: "errno \<Rightarrow> string" where
  "errno_message e =
     (case e of
        ENOENT \<Rightarrow> ''ENOENT: no such file or directory''
      | EACCES \<Rightarrow> ''EACCES: permission denied''
      | EEXIST \<Rightarrow> ''EEXIST: file already exists''
      | ENOTDIR \<Rightarrow> ''ENOTDIR: not a directory'')"

definition extend_file :: "file_part \<Rightarrow> string \<Rightarrow> multer_file" where
  "extend_file file name =
     \<lparr> fieldname = fieldname file, originalname = originalname file,
       mimetype = mimetype file, stream = stream file,
       filename = name, size = length (stream file) \<rparr>"

text \<open>
  The disk storage engine: \<^verbatim>\<open>destination\<close> answers \<^verbatim>\<open>UPLOAD_DIR\<close> (lines 25 to 27), the
  only directory of the model; \<^verbatim>\<open>filename\<close> is asked for the name; the bytes go to that name.
\<close>

definition handleFile :: "int \<Rightarrow> file_part \<Rightarrow> fs_state \<Rightarrow> upload_error + (multer_file \<times> fs_state)" where
  "handleFile now file fs =
     (let name = storage_filename now file in
      case write_file name (stream file) fs of
        Inl e \<Rightarrow> Inl (Error (errno_message e))
      | Inr fs' \<Rightarrow> Inr (extend_file file name, fs'))"

definition on_file :: "int \<Rightarrow> file_part \<Rightarrow> mstate \<Rightarrow> upload_error + mstate" where
  "on_file now file st =
     (if originalname file = [] then Inr st
      else if fieldname file \<noteq> ''pdfFile'' \<or> filesLeft st = 0
        then Inl (MulterError LIMIT_UNEXPECTED_FILE)
      else
        (case fileFilter file of
           Inl e \<Rightarrow> Inl e
         | Inr includeFile \<Rightarrow>
             if \<not> includeFile then Inr (st\<lparr> filesLeft := filesLeft st - 1 \<rparr>)
             else
               (case handleFile now file (disk st) of
                  Inl e \<Rightarrow> Inl e
                | Inr (info, fs') \<Rightarrow>
                    Inr (st\<lparr> disk := fs', filesLeft := filesLeft st - 1,
                             uploadedFiles := uploadedFiles st @ [info],
                             req_file := Some info \<rparr>))))"

fun on_event :: "int \<Rightarrow> busboy_event \<Rightarrow> mstate \<Rightarrow> upload_error + mstate" where
  "on_event now (FieldEv name nameTruncated valueTruncated) st =
     (if name = None then Inl (MulterError MISSING_FIELD_NAME)
      else if nameTruncated then Inl (MulterError LIMIT_FIELD_KEY)
      else if valueTruncated then Inl (MulterError LIMIT_FIELD_VALUE)
      else Inr st)"
| "on_event now (FileEv file) st = on_file now file st"
| "on_event now (ErrorEv msg) st = Inl (Error msg)"

fun run_events :: "int \<Rightarrow> busboy_event list \<Rightarrow> mstate \<Rightarrow> upload_error option \<times> mstate" where
  "run_events now [] st = (None, st)"
| "run_events now (ev # evs) st =
     (case on_event now ev st of
        Inl e \<Rightarrow> (Some e, st)
      | Inr st' \<Rightarrow> run_events now evs st')"

definition removeUploadedFiles :: "multer_file list \<Rightarrow> fs_state \<Rightarrow> fs_state" where
  "removeUploadedFiles files fs = fold (\<lambda>file. unlink (filename file)) files fs"

text \<open>
  A request, as the libraries read it. The path is the list of the segments between the
  slashes of the URL path, as the client sent them (percent escapes not yet decoded):
  \<^verbatim>\<open>/pdfs/a.pdf\<close> is \<open>[''pdfs'', ''a.pdf'']\<close>, \<^verbatim>\<open>/pdfs\<close> is \<open>[''pdfs'']\<close>, and a trailing
  slash is an empty last segment: \<^verbatim>\<open>/pdfs/\<close> is \<open>[''pdfs'', []]\<close> and \<^verbatim>\<open>/\<close> is \<open>[[]]\<close>.
  \<open>multipart\<close> says whether the request has a body of a multipart type (what multer tests
  first), \<open>events\<close> is what busboy reports while reading that body. \<open>conditional\<close> is
  what the static file server makes of the request's \<^verbatim>\<open>Range\<close> and \<^verbatim>\<open>If-...\<close> headers for
  the file the request names: \<open>Whole\<close> when there is no such header (or none that
  applies), else the kind of answer, which depends on validators of the file that the disk
  model does not hold. server.js itself reads nothing of a request but \<^verbatim>\<open>req.file\<close>.
\<close>

datatype revalidation =
    Whole
  | NotModified
  | Partial bytes
  | PreconditionFailed
  | RangeNotSatisfiable

record request =
  req_method :: string
  path :: "string list"
  multipart :: bool
  events :: "busboy_event list"
  conditional :: revalidation

text \<open>
  The middleware \<^verbatim>\<open>upload\<close>: it answers the error, \<^verbatim>\<open>req.file\<close> and the disk it leaves.
  A body that is not multipart is passed on untouched. \<^verbatim>\<open>Date.now()\<close> is read by the
  \<^verbatim>\<open>filename\<close> callback, which runs at most once in a request.
\<close>

definition upload :: "int \<Rightarrow> request \<Rightarrow> fs_state \<Rightarrow> (upload_error option \<times> multer_file option) \<times> fs_state" where
  "upload now req fs =
     (if \<not> multipart req then ((None, None), fs)
      else
        (case run_events now (events req)
                \<lparr> disk = fs, filesLeft = 1, uploadedFiles = [], req_file = None \<rparr> of
           (Some e, st) \<Rightarrow> ((Some e, req_file st), removeUploadedFiles (uploadedFiles st) (disk st))
         | (None, st) \<Rightarrow> ((None, req_file st), disk st)))"

subsection \<open>Upload endpoint: the handler (server.js, lines 72 to 94)\<close>

definition upload_callback :: "config \<Rightarrow> upload_error option \<Rightarrow> multer_file option \<Rightarrow> response \<Rightarrow> response" where
  "upload_callback cfg err file res =
     (case err of
        Some (MulterError c) \<Rightarrow>
          res_json (JObject [(''success'', JBool False),
                             (''message'', JString (''Multer error: '' @ message (MulterError c)))])
                   (res_status 500 res)
      | Some (Error m) \<Rightarrow>
          res_json (JObject [(''success'', JBool False),
                             (''message'', JString (message (Error m)))])
                   (res_status 400 res)
      | None \<Rightarrow>
          (case file of
             None \<Rightarrow>
               res_json (JObject [(''success'', JBool False),
                                  (''message'', JString ''No file selected for upload.'')])
                        (res_status 400 res)
           | Some f \<Rightarrow>
               res_json (JObject [(''success'', JBool True),
                                  (''message'', JString ''PDF uploaded successfully!''),
                                  (''filename'', JString (filename f)),
                                  (''url'', JString (''http://localhost:'' @ port cfg @ ''/pdfs/'' @ filename f))])
                        res))"

definition post_upload :: "config \<Rightarrow> int \<Rightarrow> request \<Rightarrow> fs_state \<Rightarrow> response \<Rightarrow> response \<times> fs_state" where
  "post_upload cfg now req fs res =
     (case upload now req fs of
        ((err, file), fs') \<Rightarrow> (upload_callback cfg err file res, fs'))"

subsection \<open>Header middleware and root route (server.js, lines 51 to 66)\<close>

text \<open>The first middleware: three headers on the response, then \<^verbatim>\<open>next()\<close>.\<close>

definition cors :: "response \<Rightarrow> response" where
  "cors res =
     setHeader ''Access-Control-Allow-Headers'' ''Content-Type''
       (setHeader ''Access-Control-Allow-Methods'' ''GET, POST''
          (setHeader ''Access-Control-Allow-Origin'' ''*'' res))"

definition root_banner :: string where
  "root_banner =
     ''<h1>Welcome to the PDF Vault Backend!</h1><p>The backend is running successfully. '' @
     ''To use the vault, open your <code>index.html</code> file in the browser or access '' @
     ''the API endpoints:</p><ul><li>POST /upload (for file uploads)</li>'' @
     ''<li>GET /pdfs (for the list of files)</li></ul>''"

definition get_root :: "response \<Rightarrow> response" where
  "get_root res = res_send root_banner res"

subsection \<open>Paths: matching and decoding\<close>

text \<open>
  Express compiles a route path to a regular expression that ignores the case of letters
  and allows one trailing slash; a mount path matches every path that begins with it at a
  segment boundary. Matching is on the path as sent.
\<close>

definition lower_char :: "char \<Rightarrow> char" where
  "lower_char c =
     (case map_of (zip ''ABCDEFGHIJKLMNOPQRSTUVWXYZ'' ''abcdefghijklmnopqrstuvwxyz'') c of
        Some l \<Rightarrow> l
      | None \<Rightarrow> c)"

definition route_path :: "string list \<Rightarrow> string list \<Rightarrow> bool" where
  "route_path pat segs =
     (map (map lower_char) segs = pat \<or> map (map lower_char) segs = pat @ [[]])"

definition mount_rest :: "string \<Rightarrow> string list \<Rightarrow> string list option" where
  "mount_rest m segs =
     (case segs of
        seg # rest \<Rightarrow> if map lower_char seg = m then Some rest else None
      | [] \<Rightarrow> None)"

definition path_text :: "string list \<Rightarrow> string" where
  "path_text segs = concat (map (\<lambda>seg. CHR ''/'' # seg) segs)"

text \<open>
  \<^verbatim>\<open>decodeURIComponent\<close>, on text held as bytes. An escape is a percent sign and two
  hexadecimal digits. An escaped byte below 128 is that character; an escaped byte from 128
  on must begin a run of escapes that is one well-formed UTF-8 sequence. Every other use of
  a percent sign is an error (\<open>None\<close>). A character that is not escaped stands for itself;
  Node reads the request line as Latin-1, so a raw byte from 128 on is the character of that
  number, whose UTF-8 form has two bytes.
\<close>

definition hex_value :: "char \<Rightarrow> nat option" where
  "hex_value c =
     map_of [(CHR ''0'', 0), (CHR ''1'', 1), (CHR ''2'', 2), (CHR ''3'', 3), (CHR ''4'', 4),
             (CHR ''5'', 5), (CHR ''6'', 6), (CHR ''7'', 7), (CHR ''8'', 8), (CHR ''9'', 9),
             (CHR ''a'', 10), (CHR ''b'', 11), (CHR ''c'', 12), (CHR ''d'', 13),
             (CHR ''e'', 14), (CHR ''f'', 15),
             (CHR ''A'', 10), (CHR ''B'', 11), (CHR ''C'', 12), (CHR ''D'', 13),
             (CHR ''E'', 14), (CHR ''F'', 15)] c"

fun escapes :: "string \<Rightarrow> (nat + char) list option" where
  "escapes [] = Some []"
| "escapes (c # cs) =
     (if c = CHR ''%'' then
        (case cs of
           h1 # h2 # rest \<Rightarrow>
             (case (hex_value h1, hex_value h2) of
                (Some a, Some b) \<Rightarrow> map_option ((#) (Inl (16 * a + b))) (escapes rest)
              | _ \<Rightarrow> None)
         | _ \<Rightarrow> None)
      else map_option ((#) (Inr c)) (escapes cs))"

fun escaped_prefix :: "(nat + char) list \<Rightarrow> nat list" where
  "escaped_prefix (Inl b # ts) = b # escaped_prefix ts"
| "escaped_prefix ts = []"

definition cont_byte :: "nat \<Rightarrow> bool" where
  "cont_byte b = (128 \<le> b \<and> b \<le> 191)"

text \<open>
  The length of the well-formed UTF-8 sequence of two to four bytes at the head of a list
  of bytes, or 0 when there is none (a stray continuation byte, an overlong form, a
  surrogate, a number beyond U+10FFFF, a missing byte).
\<close>

definition utf8_length :: "nat list \<Rightarrow> nat" where
  "utf8_length bs =
     (case bs of
        b # c1 # rest \<Rightarrow>
          if 194 \<le> b \<and> b \<le> 223 then (if cont_byte c1 then 2 else 0)
          else
            (case rest of
               c2 # rest2 \<Rightarrow>
                 if 224 \<le> b \<and> b \<le> 239 then
                   (if cont_byte c1 \<and> cont_byte c2 \<and>
                       (if b = 224 then 160 \<le> c1 else True) \<and>
                       (if b = 237 then c1 \<le> 159 else True)
                    then 3 else 0)
                 else
                   (case rest2 of
                      c3 # rest3 \<Rightarrow>
                        if 240 \<le> b \<and> b \<le> 244 \<and>
                           cont_byte c1 \<and> cont_byte c2 \<and> cont_byte c3 \<and>
                           (if b = 240 then 144 \<le> c1 else True) \<and>
                           (if b = 244 then c1 \<le> 143 else True)
                        then 4 else 0
                    | [] \<Rightarrow> 0)
             | [] \<Rightarrow> 0)
      | _ \<Rightarrow> 0)"

definition literal_bytes :: "char \<Rightarrow> string" where
  "literal_bytes c =
     (if of_char c < (128 :: nat) then [c]
      else [char_of (192 + of_char c div (64 :: nat)), char_of (128 + of_char c mod (64 :: nat))])"

function utf8_tokens :: "(nat + char) list \<Rightarrow> string option" where
  "utf8_tokens [] = Some []"
| "utf8_tokens (Inr c # ts) = map_option ((@) (literal_bytes c)) (utf8_tokens ts)"
| "utf8_tokens (Inl b # ts) =
     (if b < 128 then map_option ((#) (char_of b)) (utf8_tokens ts)
      else if utf8_length (b # escaped_prefix ts) = 0 then None
      else
        map_option
          ((@) (map char_of (b # take (utf8_length (b # escaped_prefix ts) - 1) (escaped_prefix ts))))
          (utf8_tokens (drop (utf8_length (b # escaped_prefix ts) - 1) ts)))"
  by pat_completeness auto
termination
  by (relation "measure length") auto

definition uri_decode :: "string \<Rightarrow> string option" where
  "uri_decode s = (case escapes s of None \<Rightarrow> None | Some ts \<Rightarrow> utf8_tokens ts)"

subsection \<open>Static file server (server.js, line 59)\<close>

text \<open>
  \<^verbatim>\<open>express.static(UPLOAD_DIR)\<close> mounted at \<^verbatim>\<open>/pdfs\<close> is library code (serve-static over
  send). It takes GET and HEAD only. It decodes the path below the mount, refuses a NUL
  byte, normalises the path as \<^verbatim>\<open>path.normalize\<close> does, refuses a path that still climbs
  (\<^verbatim>\<open>..\<close> between separators, a backslash counting as one) and, by default, a path with a
  part that begins with a dot. What is left names the storage path itself, one entry of
  it, or something below an entry, which a flat directory does not have.
\<close>

fun split_on :: "char \<Rightarrow> string \<Rightarrow> string list" where
  "split_on sep [] = [[]]"
| "split_on sep (c # cs) =
     (if c = sep then [] # split_on sep cs
      else (case split_on sep cs of p # ps \<Rightarrow> (c # p) # ps | [] \<Rightarrow> [[c]]))"

fun normalize_parts :: "string list \<Rightarrow> string list \<Rightarrow> string list" where
  "normalize_parts acc [] = rev acc"
| "normalize_parts acc (p # ps) =
     (if p = [] \<or> p = ''.'' then normalize_parts acc ps
      else if p = ''..'' then
        (case acc of
           a # acc' \<Rightarrow>
             if a = ''..'' then normalize_parts (p # acc) ps else normalize_parts acc' ps
         | [] \<Rightarrow> normalize_parts [p] ps)
      else normalize_parts (p # acc) ps)"

datatype send_target = Refused | Root | Entry string | Deeper

definition send_resolve :: "string list \<Rightarrow> send_target" where
  "send_resolve rest =
     (case those (map uri_decode rest) of
        None \<Rightarrow> Refused
      | Some ds \<Rightarrow>
          if list_ex (\<lambda>d. CHR 0x00 \<in> set d) ds then Refused
          else
            (let parts = normalize_parts [] (concat (map (split_on CHR ''/'') ds)) in
             if list_ex (\<lambda>p. ''..'' \<in> set (split_on CHR 0x5C p)) parts then Refused
             else if list_ex (\<lambda>p. 1 < length p \<and> hd p = CHR ''.'') parts then Refused
             else (case parts of [] \<Rightarrow> Root | [n] \<Rightarrow> Entry n | _ \<Rightarrow> Deeper)))"

text \<open>
  The answer for a file that exists: its bytes, or what a conditional or range request
  gets instead. The headers that send adds (content type, length, validators, range) are
  left out: no property reads them.
\<close>

definition send_file :: "request \<Rightarrow> bytes \<Rightarrow> response \<Rightarrow> response" where
  "send_file req b res =
     (case conditional req of
        Whole \<Rightarrow> res\<lparr> body := FileBody b \<rparr>
      | NotModified \<Rightarrow> res_status 304 res
      | Partial part \<Rightarrow> (res_status 206 res)\<lparr> body := FileBody part \<rparr>
      | PreconditionFailed \<Rightarrow>
          (res_status 412 res)\<lparr> body := HtmlBody ''Precondition Failed'' \<rparr>
      | RangeNotSatisfiable \<Rightarrow>
          (res_status 416 res)\<lparr> body := HtmlBody ''Range Not Satisfiable'' \<rparr>)"

text \<open>
  A path that names a directory is answered with a redirect to the same path with a slash
  appended (the page that goes with it is abridged here, and so is the escaping of the
  characters that a \<^verbatim>\<open>Location\<close> header cannot hold).
\<close>

definition redirect_to_slash :: "request \<Rightarrow> response \<Rightarrow> response" where
  "redirect_to_slash req res =
     (setHeader ''Location'' (path_text (path req) @ ''/'') (res_status 301 res))
       \<lparr> body := HtmlBody ''Redirecting'' \<rparr>"

text \<open>
  The middleware, on the segments below the mount. \<open>None\<close> is \<^verbatim>\<open>next()\<close>: every refusal and
  every missing file falls through to the routes. With a trailing slash the path asks for
  the index file \<^verbatim>\<open>index.html\<close> of a directory. The mount point itself, without a slash,
  is the storage path: a directory is answered with the redirect, a regular file with its
  bytes.
\<close>

definition serve_static :: "request \<Rightarrow> string list \<Rightarrow> fs_state \<Rightarrow> response \<Rightarrow> response option" where
  "serve_static req rest fs res =
     (if req_method req \<noteq> ''GET'' \<and> req_method req \<noteq> ''HEAD'' then None
      else
        (case send_resolve rest of
           Refused \<Rightarrow> None
         | Deeper \<Rightarrow> None
         | Root \<Rightarrow>
             if rest \<noteq> [] \<and> last rest = [] then
               map_option (\<lambda>b. send_file req b res) (read_file ''index.html'' fs)
             else if is_directory fs then Some (redirect_to_slash req res)
             else map_option (\<lambda>b. send_file req b res) (read_root fs)
         | Entry name \<Rightarrow>
             if last rest = [] then None
             else map_option (\<lambda>b. send_file req b res) (read_file name fs)))"

subsection \<open>The application (server.js, lines 51 to 121)\<close>

text \<open>
  Express's own answers, when no route takes the request: for OPTIONS on a routed path the
  list of the methods registered there, otherwise 404 with a short HTML page (its text is
  abridged here).
\<close>

definition allowed_methods :: "string list \<Rightarrow> string option" where
  "allowed_methods p =
     (if route_path [] p then Some ''GET,HEAD''
      else if route_path [''upload''] p then Some ''POST''
      else if route_path [''pdfs''] p then Some ''GET,HEAD''
      else None)"

definition express_fallback :: "request \<Rightarrow> response \<Rightarrow> response" where
  "express_fallback req res =
     (case (if req_method req = ''OPTIONS'' then allowed_methods (path req) else None) of
        Some allow \<Rightarrow> res_send allow (setHeader ''Allow'' allow res)
      | None \<Rightarrow> res_send (''Cannot '' @ req_method req) (res_status 404 res))"

text \<open>
  The middlewares and routes in the order server.js registers them: the three headers
  (line 51), the static mount (line 59), then the routes (lines 64, 72 and 100). Express
  lets a GET route answer HEAD as well; Node sends no body in answer to HEAD.
\<close>

definition is_get :: "request \<Rightarrow> bool" where
  "is_get req = (req_method req = ''GET'' \<or> req_method req = ''HEAD'')"

definition static_mount :: "request \<Rightarrow> fs_state \<Rightarrow> response \<Rightarrow> response option" where
  "static_mount req fs res =
     (case mount_rest ''pdfs'' (path req) of
        Some rest \<Rightarrow> serve_static req rest fs res
      | None \<Rightarrow> None)"

definition router :: "config \<Rightarrow> int \<Rightarrow> request \<Rightarrow> fs_state \<Rightarrow> response \<Rightarrow> response \<times> fs_state" where
  "router cfg now req fs res =
     (if is_get req \<and> route_path [] (path req) then (get_root res, fs)
      else if req_method req = ''POST'' \<and> route_path [''upload''] (path req)
        then post_upload cfg now req fs res
      else if is_get req \<and> route_path [''pdfs''] (path req) then (get_pdfs cfg fs res, fs)
      else (express_fallback req res, fs))"

definition transmit :: "request \<Rightarrow> response \<Rightarrow> response" where
  "transmit req r = (if req_method req = ''HEAD'' then r\<lparr> body := NoBody \<rparr> else r)"

definition app :: "config \<Rightarrow> int \<Rightarrow> request \<Rightarrow> fs_state \<Rightarrow> response \<times> fs_state" where
  "app cfg now req fs =
     (let res = cors new_response in
      case static_mount req fs res of
        Some r \<Rightarrow> (transmit req r, fs)
      | None \<Rightarrow>
          (case router cfg now req fs res of
             (r, fs') \<Rightarrow> (transmit req r, fs')))"

subsection \<open>Vocabulary of the properties\<close>

text \<open>The state in which multer starts a request, and the one it is in after storing a part.\<close>

definition st0 :: "fs_state \<Rightarrow> mstate" where
  "st0 fs = \<lparr> disk = fs, filesLeft = 1, uploadedFiles = [], req_file = None \<rparr>"

definition stored :: "int \<Rightarrow> file_part \<Rightarrow> fs_state \<Rightarrow> mstate" where
  "stored now part fs1 =
     \<lparr> disk = fs1, filesLeft = 0,
       uploadedFiles = [extend_file part (storage_filename now part)],
       req_file = Some (extend_file part (storage_filename now part)) \<rparr>"

text \<open>
  A part that reaches the storage engine and is written: named, in the expected field,
  declared as PDF, and the write succeeds, leaving the disk \<open>fs1\<close>.
\<close>

definition accepts :: "int \<Rightarrow> file_part \<Rightarrow> fs_state \<Rightarrow> fs_state \<Rightarrow> bool" where
  "accepts now part fs fs1 \<longleftrightarrow>
     originalname part \<noteq> [] \<and> fieldname part = ''pdfFile'' \<and>
     mimetype part = ''application/pdf'' \<and>
     write_file (storage_filename now part) (stream part) fs = Inr fs1"

text \<open>
  A named text field within the size limits: multer appends it to \<^verbatim>\<open>req.body\<close> and goes on.
\<close>

definition plain_field :: "busboy_event \<Rightarrow> bool" where
  "plain_field ev = (case ev of FieldEv n nt vt \<Rightarrow> n \<noteq> None \<and> \<not> nt \<and> \<not> vt | _ \<Rightarrow> False)"

text \<open>
  The failure envelope \<open>{success: false, message}\<close>, what counts as a success answer, and
  the field of a JSON answer.
\<close>

definition failure_json :: "string \<Rightarrow> json" where
  "failure_json m = JObject [(''success'', JBool False), (''message'', JString m)]"

definition is_success :: "response \<Rightarrow> bool" where
  "is_success r =
     (case body r of
        JsonBody (JObject kvs) \<Rightarrow> map_of kvs ''success'' = Some (JBool True)
      | _ \<Rightarrow> False)"

definition json_field :: "string \<Rightarrow> body \<Rightarrow> json option" where
  "json_field k b = (case b of JsonBody (JObject kvs) \<Rightarrow> map_of kvs k | _ \<Rightarrow> None)"

text \<open>
  Names made of letters, digits, hyphen, underscore and dot that do not begin with a dot:
  a URL path holds such a name as it is.
\<close>

definition safe_char :: "char \<Rightarrow> bool" where
  "safe_char c =
     (c \<in> set ''abcdefghijklmnopqrstuvwxyzABCDEFGHIJKLMNOPQRSTUVWXYZ0123456789-_.'')"

definition plain_name :: "string \<Rightarrow> bool" where
  "plain_name n = (case n of [] \<Rightarrow> False | c # cs \<Rightarrow> c \<noteq> CHR ''.'' \<and> list_all safe_char n)"

text \<open>The JSON of a listing, in the words of the specification.\<close>

definition listing_json :: "string \<Rightarrow> string list \<Rightarrow> json" where
  "listing_json base files =
     JObject
       [(''success'', JBool True),
        (''pdfs'', JArray
           (map (\<lambda>n. JObject [(''name'', JString n), (''url'', JString (base @ ''/pdfs/'' @ n))])
                (filter (suffix ''.pdf'') files)))]"

text \<open>The base of every retrieval URL.\<close>

definition base_url :: "config \<Rightarrow> string" where
  "base_url cfg = ''http://localhost:'' @ port cfg"

text \<open>The three headers of the first middleware.\<close>

definition cors_ok :: "response \<Rightarrow> bool" where
  "cors_ok r \<longleftrightarrow>
     getHeader ''Access-Control-Allow-Origin'' r = Some ''*'' \<and>
     getHeader ''Access-Control-Allow-Methods'' r = Some ''GET, POST'' \<and>
     getHeader ''Access-Control-Allow-Headers'' r = Some ''Content-Type''"

text \<open>Reading a decimal text back, to say which number a text denotes.\<close>

definition digit_value :: "char \<Rightarrow> nat" where
  "digit_value c = of_char c - 48"

definition read_nat :: "string \<Rightarrow> nat" where
  "read_nat s = foldl (\<lambda>a c. 10 * a + digit_value c) 0 s"

definition read_int :: "string \<Rightarrow> int" where
  "read_int s =
     (case s of
        c # ds \<Rightarrow> if c = CHR ''-'' then - int (read_nat ds) else int (read_nat s)
      | [] \<Rightarrow> 0)"

subsection \<open>Sample inputs\<close>

text \<open>
  Concrete configurations, disks, parts and requests on which the properties are run:
  a storage directory with one PDF, one where the name \<^verbatim>\<open>7-a.pdf\<close> is already taken, one
  that also holds a stored file without the \<^verbatim>\<open>.pdf\<close> suffix, a storage path with nothing
  at it, and one with a regular file at it.
\<close>

definition cfg0 :: config where
  "cfg0 = \<lparr> env_PORT = None \<rparr>"

definition disk0 :: fs_state where
  "disk0 = \<lparr> parent = ParentOk, upload_dir = Directory [(''5-a.pdf'', [1, 2])],
             new_entry_at = 0 \<rparr>"

definition disk1 :: fs_state where
  "disk1 = \<lparr> parent = ParentOk, upload_dir = Directory [(''7-a.pdf'', [1, 2])],
             new_entry_at = 0 \<rparr>"

definition disk2 :: fs_state where
  "disk2 = \<lparr> parent = ParentOk,
             upload_dir = Directory [(''5-a.pdf'', [1, 2]), (''6-notes.txt'', [104, 105])],
             new_entry_at = 1 \<rparr>"

definition no_disk :: "parent_state \<Rightarrow> fs_state" where
  "no_disk p = \<lparr> parent = p, upload_dir = Missing, new_entry_at = 0 \<rparr>"


definition pdf_part :: file_part where
  "pdf_part = \<lparr> fieldname = ''pdfFile'', originalname = ''a.pdf'',
                 mimetype = ''application/pdf'', stream = [37, 80, 68, 70] \<rparr>"

definition txt_part :: file_part where
  "txt_part = \<lparr> fieldname = ''pdfFile'', originalname = ''notes.txt'',
                 mimetype = ''text/plain'', stream = [104, 105] \<rparr>"

definition post_req :: "busboy_event list \<Rightarrow> request" where
  "post_req evs = \<lparr> req_method = ''POST'', path = [''upload''], multipart = True,
                     events = evs, conditional = Whole \<rparr>"

definition get_req :: "string list \<Rightarrow> request" where
  "get_req p = \<lparr> req_method = ''GET'', path = p, multipart = False, events = [],
                  conditional = Whole \<rparr>"

section \<open>Properties\<close>

subsection \<open>Response object\<close>

lemma body_res_json [simp]: "body (res_json obj res) = JsonBody obj"
  by (simp add: res_json_def)

lemma statusCode_res_json [simp]: "statusCode (res_json obj res) = statusCode res"
  by (simp add: res_json_def default_content_type_def setHeader_def split: option.split)

lemma statusCode_res_status [simp]: "statusCode (res_status code res) = code"
  by (simp add: res_status_def)

subsection \<open>Decimal text\<close>

lemma digit_cases: "d < 10 \<Longrightarrow> d \<in> {0, 1, 2, 3, 4, 5, 6, 7, 8, 9::nat}"
  by auto

lemma digit_value_digit_char: "d < 10 \<Longrightarrow> digit_value (digit_char d) = d"
  using digit_cases [of d] by (auto simp: digit_value_def digit_char_def)

lemma digit_char_plain: "d < 10 \<Longrightarrow> digit_char d \<noteq> CHR ''-'' \<and> digit_char d \<noteq> CHR ''.''"
  using digit_cases [of d] by (auto simp: digit_char_def)

lemma read_nat_snoc: "read_nat (s @ [c]) = 10 * read_nat s + digit_value c"
  by (simp add: read_nat_def)

lemma read_nat_show_nat: "read_nat (show_nat n) = n"
proof (induction n rule: show_nat.induct)
  case (1 n)
  show ?case
  proof (cases "n < 10")
    case True
    then have "show_nat n = [digit_char n]" by (simp add: show_nat.simps)
    with True show ?thesis by (simp add: read_nat_def digit_value_digit_char)
  next
    case False
    then have s: "show_nat n = show_nat (n div 10) @ [digit_char (n mod 10)]"
      by (subst show_nat.simps) simp
    from False "1.IH" have "read_nat (show_nat (n div 10)) = n div 10" by simp
    with s show ?thesis by (simp add: read_nat_snoc digit_value_digit_char)
  qed
qed

lemma show_nat_head: "\<exists>d ds. d < 10 \<and> show_nat n = digit_char d # ds"
proof (induction n rule: show_nat.induct)
  case (1 n)
  show ?case
  proof (cases "n < 10")
    case True
    then have "show_nat n = [digit_char n]" by (simp add: show_nat.simps)
    with True show ?thesis by blast
  next
    case False
    then have s: "show_nat n = show_nat (n div 10) @ [digit_char (n mod 10)]"
      by (subst show_nat.simps) simp
    from False "1.IH" obtain d ds where "d < 10" "show_nat (n div 10) = digit_char d # ds" by blast
    with s show ?thesis by auto
  qed
qed

lemma read_int_show_int: "read_int (show_int i) = i"
proof (cases "i < 0")
  case True
  then show ?thesis by (simp add: read_int_def show_int_def read_nat_show_nat)
next
  case False
  obtain d ds where d: "d < 10" "show_nat (nat i) = digit_char d # ds"
    using show_nat_head by blast
  then have "read_int (show_nat (nat i)) = int (read_nat (show_nat (nat i)))"
    using digit_char_plain [of d] by (simp add: read_int_def)
  with False show ?thesis by (simp add: show_int_def read_nat_show_nat)
qed

lemma show_int_head: "\<exists>c cs. show_int i = c # cs \<and> c \<noteq> CHR ''.''"
proof -
  obtain d ds where d: "d < 10" "show_nat (nat i) = digit_char d # ds"
    using show_nat_head by blast
  then show ?thesis using digit_char_plain [of d]
    by (cases "i < 0") (auto simp: show_int_def)
qed

subsection \<open>The storage directory\<close>

lemma map_of_put_entry: "map_of (put_entry k name data es) = (map_of es)(name \<mapsto> data)"
proof (cases "name \<in> set (map fst es)")
  case True
  then show ?thesis by (simp add: put_entry_def update_conv')
next
  case False
  then have t: "map_of (take k es) name = None"
    by (metis in_set_takeD map_of_eq_None_iff set_map take_map)
  have e: "map_of es = map_of (take k es @ drop k es)" by simp
  show ?thesis
  proof (rule ext)
    fix n
    show "map_of (put_entry k name data es) n = ((map_of es)(name \<mapsto> data)) n"
      using False t
      by (subst e) (auto simp: put_entry_def map_add_def simp del: append_take_drop_id split: option.splits)
  qed
qed





lemma read_written:
  "write_file name data fs = Inr fs1 \<Longrightarrow> read_file name fs1 = Some data"
  by (cases "upload_dir fs") (auto simp: write_file_def read_file_def map_of_put_entry)









lemma endsWith_suffix: "endsWith s t \<longleftrightarrow> suffix t s"
proof
  assume "endsWith s t"
  then have "drop (length s - length t) s = t" by (simp add: endsWith_def)
  then show "suffix t s" by (metis suffix_drop)
next
  assume "suffix t s"
  then obtain p where "s = p @ t" by (auto simp: suffix_def)
  then show "endsWith s t" by (simp add: endsWith_def)
qed

subsection \<open>multer's request loop\<close>

lemma upload_st0: "upload now req fs =
     (if \<not> multipart req then ((None, None), fs)
      else
        (case run_events now (events req) (st0 fs) of
           (Some e, st) \<Rightarrow> ((Some e, req_file st), removeUploadedFiles (uploadedFiles st) (disk st))
         | (None, st) \<Rightarrow> ((None, req_file st), disk st)))"
  by (simp add: upload_def st0_def)

lemma run_plain: "list_all plain_field pre \<Longrightarrow> run_events now (pre @ evs) st = run_events now evs st"
  by (induction pre) (auto simp: plain_field_def split: busboy_event.splits)

lemma on_event_full:
  "filesLeft st = 0 \<Longrightarrow> on_event now ev st = Inr st' \<Longrightarrow> st' = st"
  by (cases ev) (auto simp: on_file_def split: if_splits)

lemma run_events_full:
  "filesLeft st = 0 \<Longrightarrow> snd (run_events now evs st) = st"
proof (induction evs)
  case Nil
  then show ?case by simp
next
  case (Cons ev evs)
  show ?case
  proof (cases "on_event now ev st")
    case (Inl e)
    then show ?thesis by simp
  next
    case (Inr st')
    with Cons.prems have "st' = st" by (simp add: on_event_full)
    with Inr Cons show ?thesis by simp
  qed
qed

lemma on_event_st0:
  "on_event now ev (st0 fs) = Inr st' \<Longrightarrow>
     st' = st0 fs \<or> (\<exists>part fs1. ev = FileEv part \<and> accepts now part fs fs1 \<and> st' = stored now part fs1)"
  by (cases ev)
     (auto simp: on_file_def st0_def stored_def fileFilter_def handleFile_def Let_def accepts_def
           split: if_splits sum.splits)

lemma run_events_st0:
  "snd (run_events now evs (st0 fs)) = st0 fs \<or>
     (\<exists>part fs1. FileEv part \<in> set evs \<and> accepts now part fs fs1 \<and>
        snd (run_events now evs (st0 fs)) = stored now part fs1)"
proof (induction evs)
  case Nil
  then show ?case by simp
next
  case (Cons ev evs)
  show ?case
  proof (cases "on_event now ev (st0 fs)")
    case (Inl e)
    then show ?thesis by simp
  next
    case (Inr st')
    from on_event_st0 [OF Inr] show ?thesis
    proof
      assume "st' = st0 fs"
      with Inr Cons.IH show ?thesis by auto
    next
      assume "\<exists>part fs1. ev = FileEv part \<and> accepts now part fs fs1 \<and> st' = stored now part fs1"
      then obtain part fs1 where p: "ev = FileEv part" "accepts now part fs fs1"
        "st' = stored now part fs1" by blast
      have "filesLeft st' = 0" using p(3) by (simp add: stored_def)
      then have "snd (run_events now evs st') = st'" by (rule run_events_full)
      with Inr p show ?thesis by auto
    qed
  qed
qed

text \<open>What the middleware can answer, from a fresh request state.\<close>

lemma upload_cases:
  "upload now req fs = ((None, None), fs) \<or>
   (\<exists>e. upload now req fs = ((Some e, None), fs)) \<or>
   (\<exists>part fs1. multipart req \<and> FileEv part \<in> set (events req) \<and> accepts now part fs fs1 \<and>
      (upload now req fs = ((None, Some (extend_file part (storage_filename now part))), fs1) \<or>
       (\<exists>e. upload now req fs =
          ((Some e, Some (extend_file part (storage_filename now part))),
           unlink (storage_filename now part) fs1))))"
proof (cases "multipart req")
  case False
  then show ?thesis by (simp add: upload_st0)
next
  case True
  obtain err st where rn: "run_events now (events req) (st0 fs) = (err, st)"
    by (metis prod.exhaust)
  from run_events_st0 [of now "events req" fs] rn
  have "st = st0 fs \<or> (\<exists>part fs1. FileEv part \<in> set (events req) \<and> accepts now part fs fs1 \<and>
          st = stored now part fs1)" by simp
  then show ?thesis
  proof
    assume "st = st0 fs"
    with True rn show ?thesis
      by (cases err) (simp_all add: upload_st0 st0_def removeUploadedFiles_def)
  next
    assume "\<exists>part fs1. FileEv part \<in> set (events req) \<and> accepts now part fs fs1 \<and>
          st = stored now part fs1"
    then obtain part fs1 where p: "FileEv part \<in> set (events req)" "accepts now part fs fs1"
      "st = stored now part fs1" by blast
    have "upload now req fs = ((None, Some (extend_file part (storage_filename now part))), fs1) \<or>
       (\<exists>e. upload now req fs =
          ((Some e, Some (extend_file part (storage_filename now part))),
           unlink (storage_filename now part) fs1))"
      using True rn p(3)
      by (cases err) (simp_all add: upload_st0 stored_def removeUploadedFiles_def extend_file_def)
    with True p show ?thesis by blast
  qed
qed

subsection \<open>The upload callback\<close>

lemma callback_multer:
  "statusCode (upload_callback cfg (Some (MulterError c)) file res) = 500 \<and>
   body (upload_callback cfg (Some (MulterError c)) file res) =
     JsonBody (failure_json (''Multer error: '' @ message (MulterError c)))"
  by (simp add: upload_callback_def failure_json_def)

lemma callback_error:
  "statusCode (upload_callback cfg (Some (Error m)) file res) = 400 \<and>
   body (upload_callback cfg (Some (Error m)) file res) = JsonBody (failure_json m)"
  by (simp add: upload_callback_def failure_json_def)

lemma callback_no_file:
  "statusCode (upload_callback cfg None None res) = 400 \<and>
   body (upload_callback cfg None None res) = JsonBody (failure_json ''No file selected for upload.'')"
  by (simp add: upload_callback_def failure_json_def)

lemma callback_success:
  "body (upload_callback cfg None (Some f) res) =
     JsonBody (JObject [(''success'', JBool True),
                        (''message'', JString ''PDF uploaded successfully!''),
                        (''filename'', JString (filename f)),
                        (''url'', JString (''http://localhost:'' @ port cfg @ ''/pdfs/'' @ filename f))])
   \<and> statusCode (upload_callback cfg None (Some f) res) = statusCode res"
  by (simp add: upload_callback_def)

lemma callback_cases:
  "(\<exists>f. err = None \<and> file = Some f \<and> is_success (upload_callback cfg err file res)) \<or>
   (\<not> is_success (upload_callback cfg err file res) \<and>
    (\<exists>m. body (upload_callback cfg err file res) = JsonBody (failure_json m)) \<and>
    (statusCode (upload_callback cfg err file res) = 400 \<or>
     statusCode (upload_callback cfg err file res) = 500))"
proof (cases err)
  case None
  then show ?thesis
    by (cases "file") (simp_all add: upload_callback_def failure_json_def is_success_def)
next
  case (Some e)
  then show ?thesis
    by (cases e) (simp_all add: upload_callback_def failure_json_def is_success_def)
qed

lemma is_success_callback:
  "is_success (upload_callback cfg err rf res) \<longleftrightarrow> err = None \<and> rf \<noteq> None"
proof (cases err)
  case None
  then show ?thesis by (cases rf) (simp_all add: upload_callback_def is_success_def)
next
  case (Some e)
  then show ?thesis by (cases e) (simp_all add: upload_callback_def is_success_def)
qed

lemma post_upload_unfold:
  "post_upload cfg now req fs res =
     (upload_callback cfg (fst (fst (upload now req fs))) (snd (fst (upload now req fs))) res,
      snd (upload now req fs))"
  by (simp add: post_upload_def split: prod.splits)

lemma success_accepts:
  assumes post: "post_upload cfg now req fs res = (r, fs')" and ok: "is_success r"
  shows "\<exists>part. FileEv part \<in> set (events req) \<and> accepts now part fs fs' \<and>
           r = upload_callback cfg None (Some (extend_file part (storage_filename now part))) res"
proof -
  from post have r: "r = upload_callback cfg (fst (fst (upload now req fs))) (snd (fst (upload now req fs))) res"
    and f: "fs' = snd (upload now req fs)"
    by (simp_all add: post_upload_unfold)
  from ok r have e: "fst (fst (upload now req fs)) = None" and s: "snd (fst (upload now req fs)) \<noteq> None"
    by (simp_all add: is_success_callback)
  from upload_cases [of now req fs] e s
  obtain part fs1 where p: "FileEv part \<in> set (events req)" "accepts now part fs fs1"
    "upload now req fs = ((None, Some (extend_file part (storage_filename now part))), fs1)"
    by auto
  with r f show ?thesis by auto
qed

text \<open>A text field for which busboy hands over no name ends the request with multer's error.\<close>

lemma unnamed_field_rejected:
  assumes "multipart req" and "events req = FieldEv None nt vt # evs"
  shows "post_upload cfg now req fs res =
           (res_json (failure_json ''Multer error: Field name missing'') (res_status 500 res), fs)"
  using assms
  by (simp add: post_upload_def upload_def upload_callback_def removeUploadedFiles_def
        failure_json_def code_message_def)

subsection \<open>Evaluation on the sample inputs\<close>

lemmas sample_defs = cfg0_def disk0_def pdf_part_def txt_part_def post_req_def

lemmas app_eval = app_def static_mount_def router_def transmit_def express_fallback_def
  allowed_methods_def serve_static_def is_get_def Let_def

lemmas upload_eval = code_message_def upload_def post_upload_def upload_callback_def on_file_def fileFilter_def
  handleFile_def storage_filename_def write_file_def unlink_def removeUploadedFiles_def
  extend_file_def failure_json_def is_success_def new_response_def res_json_def res_status_def
  default_content_type_def getHeader_def setHeader_def st0_def read_file_def file_names_def
  Let_def

subsection \<open>Failing uploads (C1)\<close>

text \<open>
  C1. Every failing POST /upload is answered with the JSON envelope
  \<open>{success: false, message}\<close> and status 400 or 500, never with anything but JSON:
  an error that multer marks as its own (\<^verbatim>\<open>MulterError\<close>) gives 500 with the prefixed
  message; every other error gives 400 with the error's message; no error and no file gives
  400 with the no-file message. A file part rejected by \<^verbatim>\<open>fileFilter\<close> for its declared
  type and a parse error of the body are errors of the second kind, so they give 400.
\<close>

theorem upload_failure_envelope:
  "post_upload cfg now req fs res = (r, fs') \<Longrightarrow>
     (\<exists>j. body r = JsonBody j) \<and>
     (\<not> is_success r \<longrightarrow>
        (\<exists>m. body r = JsonBody (failure_json m)) \<and> (statusCode r = 400 \<or> statusCode r = 500)) \<and>
     (\<forall>c. fst (fst (upload now req fs)) = Some (MulterError c) \<longrightarrow>
        statusCode r = 500 \<and>
        body r = JsonBody (failure_json (''Multer error: '' @ message (MulterError c)))) \<and>
     (\<forall>m. fst (fst (upload now req fs)) = Some (Error m) \<longrightarrow>
        statusCode r = 400 \<and> body r = JsonBody (failure_json m)) \<and>
     (fst (upload now req fs) = (None, None) \<longrightarrow>
        statusCode r = 400 \<and> body r = JsonBody (failure_json ''No file selected for upload.'')) \<and>
     (\<forall>pre part post.
        multipart req \<and> events req = pre @ FileEv part # post \<and> list_all plain_field pre \<and>
        originalname part \<noteq> [] \<and> fieldname part = ''pdfFile'' \<and>
        mimetype part \<noteq> ''application/pdf'' \<longrightarrow>
        statusCode r = 400 \<and> body r = JsonBody (failure_json ''Only PDF files are allowed!'')) \<and>
     (\<forall>pre m post.
        multipart req \<and> events req = pre @ ErrorEv m # post \<and> list_all plain_field pre \<longrightarrow>
        statusCode r = 400 \<and> body r = JsonBody (failure_json m))"
proof -
  assume a: "post_upload cfg now req fs res = (r, fs')"
  obtain err rf fs1 where u: "upload now req fs = ((err, rf), fs1)"
    by (metis prod.exhaust)
  from a u have r: "r = upload_callback cfg err rf res"
    by (simp add: post_upload_def)
  have c1: "\<exists>j. body r = JsonBody j"
    using callback_cases [of err rf cfg res] r
    by (auto simp: is_success_def split: body.splits)
  have c2: "\<not> is_success r \<longrightarrow>
        (\<exists>m. body r = JsonBody (failure_json m)) \<and> (statusCode r = 400 \<or> statusCode r = 500)"
    using callback_cases [of err rf cfg res] r by blast
  have c3: "\<forall>c. fst (fst (upload now req fs)) = Some (MulterError c) \<longrightarrow>
        statusCode r = 500 \<and>
        body r = JsonBody (failure_json (''Multer error: '' @ message (MulterError c)))"
    using u r callback_multer by simp
  have c4: "\<forall>m. fst (fst (upload now req fs)) = Some (Error m) \<longrightarrow>
        statusCode r = 400 \<and> body r = JsonBody (failure_json m)"
    using u r callback_error by simp
  have c5: "fst (upload now req fs) = (None, None) \<longrightarrow>
        statusCode r = 400 \<and> body r = JsonBody (failure_json ''No file selected for upload.'')"
    using u r callback_no_file by simp
  have c6: "\<forall>pre part post.
        multipart req \<and> events req = pre @ FileEv part # post \<and> list_all plain_field pre \<and>
        originalname part \<noteq> [] \<and> fieldname part = ''pdfFile'' \<and>
        mimetype part \<noteq> ''application/pdf'' \<longrightarrow>
        statusCode r = 400 \<and> body r = JsonBody (failure_json ''Only PDF files are allowed!'')"
  proof (intro allI impI)
    fix pre part post
    assume h: "multipart req \<and> events req = pre @ FileEv part # post \<and> list_all plain_field pre \<and>
        originalname part \<noteq> [] \<and> fieldname part = ''pdfFile'' \<and>
        mimetype part \<noteq> ''application/pdf''"
    then have "run_events now (events req) (st0 fs) = (Some (Error ''Only PDF files are allowed!''), st0 fs)"
      by (simp add: run_plain on_file_def st0_def fileFilter_def)
    with h u have "err = Some (Error ''Only PDF files are allowed!'')"
      by (simp add: upload_st0)
    with r callback_error show "statusCode r = 400 \<and> body r = JsonBody (failure_json ''Only PDF files are allowed!'')"
      by simp
  qed
  have c7: "\<forall>pre m post.
        multipart req \<and> events req = pre @ ErrorEv m # post \<and> list_all plain_field pre \<longrightarrow>
        statusCode r = 400 \<and> body r = JsonBody (failure_json m)"
  proof (intro allI impI)
    fix pre m post
    assume h: "multipart req \<and> events req = pre @ ErrorEv m # post \<and> list_all plain_field pre"
    then have "run_events now (events req) (st0 fs) = (Some (Error m), st0 fs)"
      by (simp add: run_plain)
    with h u have "err = Some (Error m)"
      by (simp add: upload_st0)
    with r callback_error show "statusCode r = 400 \<and> body r = JsonBody (failure_json m)"
      by simp
  qed
  from c1 c2 c3 c4 c5 c6 c7 show ?thesis by blast
qed

theorem upload_failure_envelope_witness:
  "statusCode (fst (post_upload cfg0 7 (post_req [FileEv txt_part]) disk0 new_response)) = 400 \<and>
   body (fst (post_upload cfg0 7 (post_req [FileEv txt_part]) disk0 new_response)) =
     JsonBody (failure_json ''Only PDF files are allowed!'') \<and>
   statusCode (fst (post_upload cfg0 7 (post_req [FieldEv (Some ''note'') False True]) disk0 new_response)) = 500 \<and>
   body (fst (post_upload cfg0 7 (post_req [FieldEv (Some ''note'') False True]) disk0 new_response)) =
     JsonBody (failure_json ''Multer error: Field value too long'') \<and>
   statusCode (fst (post_upload cfg0 7 (post_req [FieldEv (Some ''note'') False False, ErrorEv ''Unexpected end of form'']) disk0 new_response)) = 400 \<and>
   body (fst (post_upload cfg0 7 (post_req [FieldEv (Some ''note'') False False, ErrorEv ''Unexpected end of form'']) disk0 new_response)) =
     JsonBody (failure_json ''Unexpected end of form'') \<and>
   statusCode (fst (post_upload cfg0 7 (post_req []) disk0 new_response)) = 400 \<and>
   body (fst (post_upload cfg0 7 (post_req []) disk0 new_response)) =
     JsonBody (failure_json ''No file selected for upload.'')"
proof -
  let ?t = "post_upload cfg0 7 (post_req [FileEv txt_part]) disk0 new_response"
  let ?m = "post_upload cfg0 7 (post_req [FieldEv (Some ''note'') False True]) disk0 new_response"
  let ?p = "post_upload cfg0 7 (post_req [FieldEv (Some ''note'') False False, ErrorEv ''Unexpected end of form'']) disk0 new_response"
  let ?n = "post_upload cfg0 7 (post_req []) disk0 new_response"
  have t: "multipart (post_req [FileEv txt_part]) \<and>
           events (post_req [FileEv txt_part]) = [] @ FileEv txt_part # [] \<and>
           list_all plain_field [] \<and> originalname txt_part \<noteq> [] \<and>
           fieldname txt_part = ''pdfFile'' \<and> mimetype txt_part \<noteq> ''application/pdf''"
    by (simp add: sample_defs)
  have m: "fst (fst (upload 7 (post_req [FieldEv (Some ''note'') False True]) disk0)) =
             Some (MulterError LIMIT_FIELD_VALUE)"
    by (simp add: sample_defs upload_def)
  have p: "multipart (post_req [FieldEv (Some ''note'') False False, ErrorEv ''Unexpected end of form'']) \<and>
           events (post_req [FieldEv (Some ''note'') False False, ErrorEv ''Unexpected end of form'']) =
             [FieldEv (Some ''note'') False False] @ ErrorEv ''Unexpected end of form'' # [] \<and>
           list_all plain_field [FieldEv (Some ''note'') False False]"
    by (simp add: sample_defs plain_field_def)
  have n: "fst (upload 7 (post_req []) disk0) = (None, None)"
    by (simp add: sample_defs upload_def)
  from upload_failure_envelope [of cfg0 7 "post_req [FileEv txt_part]" disk0 new_response "fst ?t" "snd ?t"] t
  have "statusCode (fst ?t) = 400 \<and> body (fst ?t) = JsonBody (failure_json ''Only PDF files are allowed!'')"
    by (metis prod.collapse)
  moreover
  from upload_failure_envelope [of cfg0 7 "post_req [FieldEv (Some ''note'') False True]" disk0 new_response "fst ?m" "snd ?m"] m
  have "statusCode (fst ?m) = 500 \<and> body (fst ?m) = JsonBody (failure_json ''Multer error: Field value too long'')"
    by (simp add: code_message_def)
  moreover
  from upload_failure_envelope [of cfg0 7 _ disk0 new_response "fst ?p" "snd ?p"] p
  have "statusCode (fst ?p) = 400 \<and> body (fst ?p) = JsonBody (failure_json ''Unexpected end of form'')"
    by (metis prod.collapse)
  moreover
  from upload_failure_envelope [of cfg0 7 "post_req []" disk0 new_response "fst ?n" "snd ?n"] n
  have "statusCode (fst ?n) = 400 \<and> body (fst ?n) = JsonBody (failure_json ''No file selected for upload.'')"
    by simp
  ultimately show ?thesis by simp
qed

subsection \<open>Uploads of another declared type (C2)\<close>

text \<open>
  C2. When every file part of an upload declares a MIME type other than
  \<^verbatim>\<open>application/pdf\<close>, the request is rejected before anything is written: the answer is
  the failure envelope with a message, multer's request state is still the initial one
  (the storage engine never ran, nothing was stored), and the disk is the one before the
  request.
\<close>

theorem non_pdf_rejected:
  assumes nonpdf: "\<forall>part. FileEv part \<in> set (events req) \<longrightarrow> mimetype part \<noteq> ''application/pdf''"
    and post: "post_upload cfg now req fs res = (r, fs')"
  shows "\<not> is_success r \<and> (\<exists>m. body r = JsonBody (failure_json m)) \<and>
         (statusCode r = 400 \<or> statusCode r = 500) \<and>
         fs' = fs \<and> snd (run_events now (events req) (st0 fs)) = st0 fs"
proof -
  have no_accept: "\<not> (\<exists>part fs1. FileEv part \<in> set (events req) \<and> accepts now part fs fs1)"
    using nonpdf by (auto simp: accepts_def)
  with run_events_st0 [of now "events req" fs]
  have idle: "snd (run_events now (events req) (st0 fs)) = st0 fs" by blast
  from upload_cases [of now req fs] no_accept
  have u: "snd (fst (upload now req fs)) = None \<and> snd (upload now req fs) = fs" by auto
  from post have r: "r = upload_callback cfg (fst (fst (upload now req fs))) (snd (fst (upload now req fs))) res"
    and f: "fs' = snd (upload now req fs)"
    by (simp_all add: post_upload_unfold)
  from r u have ns: "\<not> is_success r" by (simp add: is_success_callback)
  with callback_cases [of "fst (fst (upload now req fs))" "snd (fst (upload now req fs))" cfg res] r
  have "(\<exists>m. body r = JsonBody (failure_json m)) \<and> (statusCode r = 400 \<or> statusCode r = 500)"
    by blast
  with ns f u idle show ?thesis by simp
qed

theorem non_pdf_rejected_witness:
  "events (post_req [FileEv txt_part]) = [FileEv txt_part] \<and>
   mimetype txt_part \<noteq> ''application/pdf'' \<and>
   \<not> is_success (fst (post_upload cfg0 7 (post_req [FileEv txt_part]) disk0 new_response)) \<and>
   snd (post_upload cfg0 7 (post_req [FileEv txt_part]) disk0 new_response) = disk0"
proof -
  let ?t = "post_upload cfg0 7 (post_req [FileEv txt_part]) disk0 new_response"
  have h: "\<forall>part. FileEv part \<in> set (events (post_req [FileEv txt_part])) \<longrightarrow>
      mimetype part \<noteq> ''application/pdf''"
    by (simp add: sample_defs)
  have e: "?t = (fst ?t, snd ?t)" by simp
  from non_pdf_rejected [OF h e] show ?thesis by (simp add: sample_defs)
qed

subsection \<open>Requests without a file part (C3)\<close>

text \<open>
  C3 (amended). When a POST /upload request contains no file part and multer reports no
  error for it, the answer is status 400 with \<open>{success: false, message: 'No file selected
  for upload.'}\<close>, and the disk is unchanged.
\<close>

theorem no_file_part_without_error:
  assumes nofile: "\<forall>part. FileEv part \<notin> set (events req)"
    and noerr: "fst (fst (upload now req fs)) = None"
    and post: "post_upload cfg now req fs res = (r, fs')"
  shows "statusCode r = 400 \<and>
         body r = JsonBody (failure_json ''No file selected for upload.'') \<and> fs' = fs"
proof -
  from upload_cases [of now req fs] nofile
  have u: "snd (fst (upload now req fs)) = None \<and> snd (upload now req fs) = fs" by auto
  from post have r: "r = upload_callback cfg (fst (fst (upload now req fs))) (snd (fst (upload now req fs))) res"
    and f: "fs' = snd (upload now req fs)"
    by (simp_all add: post_upload_unfold)
  from r u noerr callback_no_file [of cfg res] f show ?thesis by simp
qed

theorem no_file_part_without_error_witness:
  "events (post_req [FieldEv (Some ''note'') False False]) = [FieldEv (Some ''note'') False False] \<and>
   fst (fst (upload 7 (post_req [FieldEv (Some ''note'') False False]) disk0)) = None \<and>
   statusCode (fst (post_upload cfg0 7 (post_req [FieldEv (Some ''note'') False False]) disk0 new_response)) = 400 \<and>
   body (fst (post_upload cfg0 7 (post_req [FieldEv (Some ''note'') False False]) disk0 new_response)) =
     JsonBody (failure_json ''No file selected for upload.'') \<and>
   snd (post_upload cfg0 7 (post_req [FieldEv (Some ''note'') False False]) disk0 new_response) = disk0"
proof -
  let ?q = "post_req [FieldEv (Some ''note'') False False]"
  let ?t = "post_upload cfg0 7 ?q disk0 new_response"
  have h1: "\<forall>part. FileEv part \<notin> set (events ?q)"
    by (simp add: sample_defs)
  have h2: "fst (fst (upload 7 ?q disk0)) = None"
    by (simp add: sample_defs upload_def)
  have e: "?t = (fst ?t, snd ?t)" by simp
  from no_file_part_without_error [OF h1 h2 e] h2 show ?thesis by (simp add: sample_defs)
qed

text \<open>
  C3, as stated, fails: a multipart request whose only part is a text field with a value
  over the size limit contains no file part, and is answered with status 500 and multer's
  message, not with status 400 and the no-file message.
\<close>

theorem no_file_part_counterexample:
  "events (post_req [FieldEv (Some ''note'') False True]) = [FieldEv (Some ''note'') False True] \<and>
   statusCode (fst (post_upload cfg0 7 (post_req [FieldEv (Some ''note'') False True]) disk0 new_response)) = 500 \<and>
   body (fst (post_upload cfg0 7 (post_req [FieldEv (Some ''note'') False True]) disk0 new_response)) =
     JsonBody (JObject [(''success'', JBool False),
                        (''message'', JString ''Multer error: Field value too long'')])"
  by (simp add: sample_defs upload_eval)

subsection \<open>Accepted uploads (C4)\<close>

text \<open>
  C4. An accepted upload answers \<open>{success: true, message, filename, url}\<close>, where the
  filename is the decimal text of the time in milliseconds at which the name was made, a
  hyphen, and the original name of the uploaded part, and the url is the base URL followed
  by \<^verbatim>\<open>/pdfs/\<close> and that filename. The part's bytes are on disk under that filename.
\<close>

theorem upload_success_response:
  assumes post: "post_upload cfg now req fs res = (r, fs')" and ok: "is_success r"
  shows "\<exists>part. FileEv part \<in> set (events req) \<and> mimetype part = ''application/pdf'' \<and>
           body r = JsonBody (JObject
             [(''success'', JBool True),
              (''message'', JString ''PDF uploaded successfully!''),
              (''filename'', JString (show_int now @ ''-'' @ originalname part)),
              (''url'', JString (base_url cfg @ ''/pdfs/'' @ show_int now @ ''-'' @ originalname part))]) \<and>
           statusCode r = statusCode res \<and>
           read_int (show_int now) = now \<and>
           read_file (show_int now @ ''-'' @ originalname part) fs' = Some (stream part)"
proof -
  from success_accepts [OF post ok]
  obtain part where p: "FileEv part \<in> set (events req)" "accepts now part fs fs'"
    "r = upload_callback cfg None (Some (extend_file part (storage_filename now part))) res"
    by blast
  from p(2) have m: "mimetype part = ''application/pdf''"
    and w: "write_file (storage_filename now part) (stream part) fs = Inr fs'"
    by (simp_all add: accepts_def)
  have n: "filename (extend_file part (storage_filename now part)) = show_int now @ ''-'' @ originalname part"
    by (simp add: extend_file_def storage_filename_def)
  from p(3) n callback_success [of cfg "extend_file part (storage_filename now part)" res]
  have b: "body r = JsonBody (JObject
             [(''success'', JBool True),
              (''message'', JString ''PDF uploaded successfully!''),
              (''filename'', JString (show_int now @ ''-'' @ originalname part)),
              (''url'', JString (base_url cfg @ ''/pdfs/'' @ show_int now @ ''-'' @ originalname part))])"
    and s: "statusCode r = statusCode res"
    by (simp_all add: base_url_def)
  from read_written [OF w]
  have "read_file (show_int now @ ''-'' @ originalname part) fs' = Some (stream part)"
    by (simp add: storage_filename_def)
  with p(1) m b s read_int_show_int show ?thesis by blast
qed

theorem upload_success_response_witness:
  "is_success (fst (post_upload cfg0 7 (post_req [FileEv pdf_part]) disk0 new_response)) \<and>
   body (fst (post_upload cfg0 7 (post_req [FileEv pdf_part]) disk0 new_response)) =
     JsonBody (JObject
       [(''success'', JBool True),
        (''message'', JString ''PDF uploaded successfully!''),
        (''filename'', JString ''7-a.pdf''),
        (''url'', JString ''http://localhost:3000/pdfs/7-a.pdf'')]) \<and>
   read_file ''7-a.pdf'' (snd (post_upload cfg0 7 (post_req [FileEv pdf_part]) disk0 new_response)) =
     Some [37, 80, 68, 70]"
proof -
  let ?t = "post_upload cfg0 7 (post_req [FileEv pdf_part]) disk0 new_response"
  have s7: "show_int 7 = ''7''"
    by (simp add: show_int_def show_nat.simps digit_char_def)
  have e: "?t = (fst ?t, snd ?t)" by simp
  have ok: "is_success (fst ?t)"
    by (simp add: sample_defs upload_eval s7)
  from upload_success_response [OF e ok]
  obtain part where p: "FileEv part \<in> set (events (post_req [FileEv pdf_part]))"
    "body (fst ?t) = JsonBody (JObject
             [(''success'', JBool True),
              (''message'', JString ''PDF uploaded successfully!''),
              (''filename'', JString (show_int 7 @ ''-'' @ originalname part)),
              (''url'', JString (base_url cfg0 @ ''/pdfs/'' @ show_int 7 @ ''-'' @ originalname part))])"
    "read_file (show_int 7 @ ''-'' @ originalname part) (snd ?t) = Some (stream part)"
    by blast
  from p(1) have "part = pdf_part" by (simp add: post_req_def)
  with p(2,3) ok show ?thesis
    by (simp add: s7 pdf_part_def base_url_def port_def cfg0_def)
qed

subsection \<open>The listing and the static mount (C5)\<close>

lemma send_resolve_mount [simp]: "send_resolve [] = Root"
  by (simp add: send_resolve_def)

lemma send_resolve_slash [simp]: "send_resolve [[]] = Root"
  by (simp add: send_resolve_def uri_decode_def)

lemma lower_char_pdfs: "map lower_char m = ''pdfs'' \<Longrightarrow> m \<noteq> []"
  by auto

lemma route_pdfs_cases:
  assumes "route_path [''pdfs''] segs"
  obtains m where "segs = [m]" "map lower_char m = ''pdfs''"
        | m where "segs = [m, []]" "map lower_char m = ''pdfs''"
proof -
  from assms have "map (map lower_char) segs = [''pdfs''] \<or> map (map lower_char) segs = [''pdfs'', []]"
    by (simp add: route_path_def)
  then show ?thesis
  proof
    assume "map (map lower_char) segs = [''pdfs'']"
    then obtain m where "segs = [m]" "map lower_char m = ''pdfs''"
      by (auto simp: map_eq_Cons_conv)
    then show ?thesis by (rule that(1))
  next
    assume "map (map lower_char) segs = [''pdfs'', []]"
    then obtain m where "segs = [m, []]" "map lower_char m = ''pdfs''"
      by (auto simp: map_eq_Cons_conv)
    then show ?thesis by (rule that(2))
  qed
qed

lemma route_pdfs_only:
  assumes "route_path [''pdfs''] segs"
  shows "\<not> route_path [] segs" and "\<not> route_path [''upload''] segs"
    and "\<exists>m rest. segs = m # rest \<and> map lower_char m = ''pdfs'' \<and> (rest = [] \<or> rest = [[]])"
  using assms by (auto elim!: route_pdfs_cases simp: route_path_def)

text \<open>What the static mount does with a request for the mount point.\<close>

lemma static_mount_point:
  assumes "route_path [''pdfs''] (path req)" and "is_get req"
  shows "static_mount req fs res =
           (if last (path req) = [] then map_option (\<lambda>b. send_file req b res) (read_file ''index.html'' fs)
            else if is_directory fs then Some (redirect_to_slash req res)
            else map_option (\<lambda>b. send_file req b res) (read_root fs))"
  using assms(1)
proof (cases rule: route_pdfs_cases)
  case (1 m)
  with assms(2) lower_char_pdfs [of m] show ?thesis
    by (auto simp: static_mount_def mount_rest_def serve_static_def is_get_def)
next
  case (2 m)
  with assms(2) show ?thesis
    by (auto simp: static_mount_def mount_rest_def serve_static_def is_get_def)
qed

lemma not_success_send_file: "\<not> is_success res \<Longrightarrow> \<not> is_success (send_file req b res)"
  by (simp add: send_file_def is_success_def res_status_def split: revalidation.split)

lemma not_success_redirect: "\<not> is_success (redirect_to_slash req res)"
  by (simp add: redirect_to_slash_def is_success_def)

lemma not_success_cors: "\<not> is_success (cors new_response)"
  by (simp add: is_success_def cors_def setHeader_def new_response_def)

lemma not_success_static:
  "\<not> is_success res \<Longrightarrow> serve_static req rest fs res = Some r \<Longrightarrow> \<not> is_success r"
  by (auto simp: serve_static_def not_success_send_file not_success_redirect
           split: if_splits send_target.splits)

lemma not_success_static_mount:
  "\<not> is_success res \<Longrightarrow> static_mount req fs res = Some r \<Longrightarrow> \<not> is_success r"
  by (auto simp: static_mount_def dest: not_success_static split: option.splits)

lemma transmit_get: "req_method req = ''GET'' \<Longrightarrow> transmit req r = r"
  by (simp add: transmit_def)

lemma app_reaches_listing:
  assumes "req_method req = ''GET''" and "route_path [''pdfs''] (path req)"
    and "static_mount req fs (cors new_response) = None"
  shows "app cfg now req fs = (get_pdfs cfg fs (cors new_response), fs)"
  using assms route_pdfs_only(1,2) [OF assms(2)]
  by (simp add: app_def router_def is_get_def transmit_get)

lemma app_static_answer:
  assumes "req_method req = ''GET''" and "static_mount req fs (cors new_response) = Some r"
  shows "app cfg now req fs = (r, fs)"
  using assms by (simp add: app_def transmit_get)

lemma get_pdfs_success:
  assumes "is_success (get_pdfs cfg fs res)"
  obtains files where "readdir fs = Inr files"
    and "body (get_pdfs cfg fs res) =
           JsonBody (JObject [(''success'', JBool True), (''pdfs'', JArray (pdfList cfg files))])"
    and "statusCode (get_pdfs cfg fs res) = statusCode res"
  using assms by (cases "readdir fs") (auto simp: get_pdfs_def is_success_def)

lemma pdfList_listing:
  "JObject [(''success'', JBool True), (''pdfs'', JArray (pdfList cfg files))] =
     listing_json (base_url cfg) files"
proof -
  have "(\<lambda>file. endsWith file ''.pdf'') = suffix ''.pdf''"
    by (rule ext) (rule endsWith_suffix)
  then show ?thesis
    by (simp add: pdfList_def pdf_entry_def base_url_def listing_json_def)
qed

lemma safe_char_facts:
  assumes "safe_char c"
  shows "c \<noteq> CHR ''%''" "c \<noteq> CHR ''/''" "c \<noteq> CHR 0x5C" "c \<noteq> CHR 0x00" "of_char c < (128 :: nat)"
  using assms by (auto simp: safe_char_def)

lemma escapes_plain: "list_all (\<lambda>c. c \<noteq> CHR ''%'') s \<Longrightarrow> escapes s = Some (map Inr s)"
  by (induction s) simp_all

lemma utf8_tokens_literal:
  "list_all (\<lambda>c. of_char c < (128 :: nat)) s \<Longrightarrow> utf8_tokens (map Inr s) = Some s"
  by (induction s) (simp_all add: literal_bytes_def)

lemma split_on_absent: "sep \<notin> set s \<Longrightarrow> split_on sep s = [s]"
  by (induction s) auto

lemma uri_decode_safe: "list_all safe_char s \<Longrightarrow> uri_decode s = Some s"
proof -
  assume a: "list_all safe_char s"
  then have "list_all (\<lambda>c. c \<noteq> CHR ''%'') s" and "list_all (\<lambda>c. of_char c < (128 :: nat)) s"
    by (simp_all add: list_all_iff safe_char_facts)
  then show ?thesis
    by (simp add: uri_decode_def escapes_plain utf8_tokens_literal)
qed


lemma send_resolve_plain:
  assumes "plain_name n"
  shows "send_resolve [n] = Entry n"
proof -
  from assms obtain c cs where n: "n = c # cs" "c \<noteq> CHR ''.''" "list_all safe_char n"
    by (auto simp: plain_name_def split: list.splits)
  from n(3) have d: "uri_decode n = Some n" by (rule uri_decode_safe)
  from n(3) have "\<forall>x \<in> set n. x \<noteq> CHR ''/'' \<and> x \<noteq> CHR 0x5C \<and> x \<noteq> CHR 0x00"
    by (simp add: list_all_iff safe_char_facts)
  then have free: "CHR ''/'' \<notin> set n" "CHR 0x5C \<notin> set n" "CHR 0x00 \<notin> set n"
    by blast+
  from n(1,2) have ne: "n \<noteq> []" "n \<noteq> ''.''" "n \<noteq> ''..''" "hd n \<noteq> CHR ''.''"
    by auto
  from free(1) have s1: "split_on CHR ''/'' n = [n]" by (rule split_on_absent)
  from free(2) have s2: "split_on CHR 0x5C n = [n]" by (rule split_on_absent)
  from ne have nz: "normalize_parts [] [n] = [n]" by simp
  show ?thesis
    using d free(3) ne
    by (simp add: send_resolve_def s1 s2 nz)
qed

lemma show_nat_safe: "list_all safe_char (show_nat k)"
proof (induction k rule: show_nat.induct)
  case (1 k)
  have dc: "\<And>d. d < 10 \<Longrightarrow> safe_char (digit_char d)"
  proof -
    fix d :: nat assume "d < 10"
    with digit_cases [of d] show "safe_char (digit_char d)"
      by (auto simp: digit_char_def safe_char_def)
  qed
  show ?case
  proof (cases "k < 10")
    case True
    then have "show_nat k = [digit_char k]" by (simp add: show_nat.simps)
    with True dc show ?thesis by simp
  next
    case False
    then have s: "show_nat k = show_nat (k div 10) @ [digit_char (k mod 10)]"
      by (subst show_nat.simps) simp
    from False "1.IH" have "list_all safe_char (show_nat (k div 10))" by simp
    with s dc [of "k mod 10"] show ?thesis by simp
  qed
qed

lemma storage_filename_plain:
  assumes "list_all safe_char (originalname part)"
  shows "plain_name (storage_filename t part)"
proof -
  obtain c cs where h: "show_int t = c # cs" "c \<noteq> CHR ''.''"
    using show_int_head by blast
  have "safe_char CHR ''-''" by (simp add: safe_char_def)
  then have "list_all safe_char (show_int t)"
    using show_nat_safe by (simp add: show_int_def)
  with assms h show ?thesis
    by (simp add: storage_filename_def plain_name_def safe_char_def)
qed

lemma app_static_entry:
  assumes "req_method req = ''GET''" and "path req = [m, seg]" and "map lower_char m = ''pdfs''"
    and "send_resolve [seg] = Entry n" and "conditional req = Whole"
    and "read_file n fs = Some b"
  shows "statusCode (fst (app cfg now req fs)) = 200 \<and>
         body (fst (app cfg now req fs)) = FileBody b \<and> snd (app cfg now req fs) = fs"
proof -
  from assms(4) have "seg \<noteq> []" by auto
  with assms have "static_mount req fs (cors new_response) =
      Some ((cors new_response)\<lparr> body := FileBody b \<rparr>)"
    by (simp add: static_mount_def mount_rest_def serve_static_def send_file_def)
  from app_static_answer [OF assms(1) this] show ?thesis
    by (simp add: cors_def setHeader_def new_response_def)
qed

lemmas route_eval = route_path_def mount_rest_def lower_char_def

lemma mount_point_redirect:
  assumes "is_get req" and "map (map lower_char) (path req) = [''pdfs'']" and "is_directory fs"
  shows "statusCode (fst (app cfg now req fs)) = 301 \<and> snd (app cfg now req fs) = fs"
proof -
  from assms(2) have r: "route_path [''pdfs''] (path req)" by (simp add: route_path_def)
  from assms(2) have "last (path req) \<noteq> []"
    by (auto simp: map_eq_Cons_conv)
  with static_mount_point [OF r assms(1), of fs "cors new_response"] assms(3)
  have "static_mount req fs (cors new_response) = Some (redirect_to_slash req (cors new_response))"
    by simp
  then show ?thesis
    by (simp add: app_def transmit_def redirect_to_slash_def res_status_def setHeader_def Let_def)
qed

text \<open>
  The listing handler answers the path with the trailing slash whenever the storage
  directory exists and holds no \<^verbatim>\<open>index.html\<close> (which the static mount would serve instead).
\<close>

lemma listing_answered:
  assumes "req_method req = ''GET''" and "path req = [m, []]" and "map lower_char m = ''pdfs''"
    and "is_directory fs" and "read_file ''index.html'' fs = None"
  shows "is_success (fst (app cfg now req fs))"
proof -
  from assms(2,3) have r: "route_path [''pdfs''] (path req)" by (simp add: route_path_def)
  from assms(1) have g: "is_get req" by (simp add: is_get_def)
  from static_mount_point [OF r g, of fs "cors new_response"] assms(2,5)
  have "static_mount req fs (cors new_response) = None" by simp
  from app_reaches_listing [OF assms(1) r this, of cfg now]
  have "app cfg now req fs = (get_pdfs cfg fs (cors new_response), fs)" .
  moreover from assms(4) obtain files where "readdir fs = Inr files"
    by (cases "upload_dir fs") (simp_all add: is_directory_def readdir_def)
  ultimately show ?thesis by (simp add: get_pdfs_def is_success_def)
qed

text \<open>
  C5. A successful GET /pdfs answers 200 with \<open>{success: true, pdfs}\<close> where \<open>pdfs\<close> holds, in
  enumeration order, one \<open>{name, url}\<close> for each directory entry whose name has the suffix
  \<^verbatim>\<open>.pdf\<close> and nothing else; the url is the one the upload handler answers for that
  filename. A file of the storage directory without the suffix is not in the list, and
  every GET below the mount whose path names it is answered with 200 and its bytes; a
  stored file whose original name is made of letters, digits, hyphen, underscore and dot is
  named by its own file name. The request that is answered so has the trailing slash: the
  static mount comes first and answers the bare path \<^verbatim>\<open>/pdfs\<close> of an existing directory
  with a redirect to \<^verbatim>\<open>/pdfs/\<close> (\<open>mount_point_redirect\<close>), where the listing handler
  answers (\<open>listing_answered\<close>).
\<close>

theorem listing_contents:
  assumes get: "req_method req = ''GET''" "route_path [''pdfs''] (path req)"
    and ok: "is_success (fst (app cfg now req fs))"
  shows "\<exists>files. readdir fs = Inr files \<and>
           last (path req) = [] \<and>
           statusCode (fst (app cfg now req fs)) = 200 \<and>
           body (fst (app cfg now req fs)) = JsonBody (listing_json (base_url cfg) files) \<and>
           (\<forall>f res. json_field ''url'' (body (upload_callback cfg None (Some f) res)) =
                       Some (JString (base_url cfg @ ''/pdfs/'' @ filename f))) \<and>
           (\<forall>n b (req' :: request) m seg.
              read_file n fs = Some b \<and> \<not> suffix ''.pdf'' n \<and>
              req_method req' = ''GET'' \<and> path req' = [m, seg] \<and> map lower_char m = ''pdfs'' \<and>
              conditional req' = Whole \<and> send_resolve [seg] = Entry n \<longrightarrow>
                n \<notin> set (filter (suffix ''.pdf'') files) \<and>
                statusCode (fst (app cfg now req' fs)) = 200 \<and>
                body (fst (app cfg now req' fs)) = FileBody b) \<and>
           (\<forall>t (part :: file_part).
              list_all safe_char (originalname part) \<longrightarrow>
                send_resolve [storage_filename t part] = Entry (storage_filename t part))"
proof -
  let ?res = "cors new_response"
  have st: "static_mount req fs ?res = None"
  proof (cases "static_mount req fs ?res")
    case None
    then show ?thesis .
  next
    case (Some r)
    with not_success_static_mount [OF not_success_cors] have "\<not> is_success r" by blast
    with app_static_answer [OF get(1) Some, of cfg now] ok show ?thesis by simp
  qed
  from app_reaches_listing [OF get st, of cfg now]
  have a: "app cfg now req fs = (get_pdfs cfg fs ?res, fs)" .
  with ok have "is_success (get_pdfs cfg fs ?res)" by simp
  then obtain files where f: "readdir fs = Inr files"
    "body (get_pdfs cfg fs ?res) =
       JsonBody (JObject [(''success'', JBool True), (''pdfs'', JArray (pdfList cfg files))])"
    "statusCode (get_pdfs cfg fs ?res) = statusCode ?res"
    by (rule get_pdfs_success)
  have s: "statusCode (fst (app cfg now req fs)) = 200"
    using a f(3) by (simp add: cors_def setHeader_def new_response_def)
  have b: "body (fst (app cfg now req fs)) = JsonBody (listing_json (base_url cfg) files)"
    using a f(2) by (simp add: pdfList_listing)
  have u: "\<forall>f res. json_field ''url'' (body (upload_callback cfg None (Some f) res)) =
                     Some (JString (base_url cfg @ ''/pdfs/'' @ filename f))"
    by (simp add: callback_success json_field_def base_url_def)
  have fetch: "\<forall>n b (req' :: request) m seg.
              read_file n fs = Some b \<and> \<not> suffix ''.pdf'' n \<and>
              req_method req' = ''GET'' \<and> path req' = [m, seg] \<and> map lower_char m = ''pdfs'' \<and>
              conditional req' = Whole \<and> send_resolve [seg] = Entry n \<longrightarrow>
                n \<notin> set (filter (suffix ''.pdf'') files) \<and>
                statusCode (fst (app cfg now req' fs)) = 200 \<and>
                body (fst (app cfg now req' fs)) = FileBody b"
  proof (intro allI impI)
    fix n b and req' :: request and m seg
    assume h: "read_file n fs = Some b \<and> \<not> suffix ''.pdf'' n \<and>
              req_method req' = ''GET'' \<and> path req' = [m, seg] \<and> map lower_char m = ''pdfs'' \<and>
              conditional req' = Whole \<and> send_resolve [seg] = Entry n"
    then have "n \<notin> set (filter (suffix ''.pdf'') files)" by simp
    moreover from h app_static_entry [where req = req' and m = m and seg = seg and n = n
        and b = b and fs = fs and cfg = cfg and now = now]
    have "statusCode (fst (app cfg now req' fs)) = 200 \<and>
          body (fst (app cfg now req' fs)) = FileBody b" by simp
    ultimately show "n \<notin> set (filter (suffix ''.pdf'') files) \<and>
                statusCode (fst (app cfg now req' fs)) = 200 \<and>
                body (fst (app cfg now req' fs)) = FileBody b" by simp
  qed
  have plain: "\<forall>t (part :: file_part).
              list_all safe_char (originalname part) \<longrightarrow>
                send_resolve [storage_filename t part] = Entry (storage_filename t part)"
    by (simp add: storage_filename_plain send_resolve_plain)
  have sl: "last (path req) = []"
  proof (rule ccontr)
    assume n: "last (path req) \<noteq> []"
    from get(1) have g: "is_get req" by (simp add: is_get_def)
    from static_mount_point [OF get(2) g, of fs ?res] n st
    have "\<not> is_directory fs" by (auto split: if_splits)
    with f(1) show False
      by (cases "upload_dir fs") (simp_all add: is_directory_def readdir_def)
  qed
  from f(1) sl s b u fetch plain show ?thesis by blast
qed

theorem listing_contents_witness:
  "is_success (fst (app cfg0 7 (get_req [''pdfs'', []]) disk2)) \<and>
   body (fst (app cfg0 7 (get_req [''pdfs'', []]) disk2)) =
     JsonBody (JObject
       [(''success'', JBool True),
        (''pdfs'', JArray [JObject [(''name'', JString ''5-a.pdf''),
                                    (''url'', JString ''http://localhost:3000/pdfs/5-a.pdf'')]])]) \<and>
   storage_filename 6 txt_part = ''6-notes.txt'' \<and>
   statusCode (fst (app cfg0 7 (get_req [''pdfs'', ''6-notes.txt'']) disk2)) = 200 \<and>
   body (fst (app cfg0 7 (get_req [''pdfs'', ''6-notes.txt'']) disk2)) = FileBody [104, 105]"
proof -
  let ?q = "get_req [''pdfs'', []]"
  let ?f = "get_req [''pdfs'', ''6-notes.txt'']"
  have s6: "show_int 6 = ''6''"
    by (simp add: show_int_def show_nat.simps digit_char_def)
  have n: "storage_filename 6 txt_part = ''6-notes.txt''"
    by (simp add: storage_filename_def s6 txt_part_def)
  have g: "req_method ?q = ''GET''" "route_path [''pdfs''] (path ?q)"
    by (simp_all add: get_req_def route_eval)
  have d: "readdir disk2 = Inr [''5-a.pdf'', ''6-notes.txt'']"
    by (simp add: readdir_def disk2_def)
  have ok: "is_success (fst (app cfg0 7 ?q disk2))"
    by (rule listing_answered [where m = "''pdfs''"])
       (simp_all add: get_req_def lower_char_def is_directory_def read_file_def disk2_def)
  from listing_contents [OF g ok]
  obtain files where l: "readdir disk2 = Inr files"
    "body (fst (app cfg0 7 ?q disk2)) = JsonBody (listing_json (base_url cfg0) files)"
    "\<forall>n b (req' :: request) m seg.
        read_file n disk2 = Some b \<and> \<not> suffix ''.pdf'' n \<and>
        req_method req' = ''GET'' \<and> path req' = [m, seg] \<and> map lower_char m = ''pdfs'' \<and>
        conditional req' = Whole \<and> send_resolve [seg] = Entry n \<longrightarrow>
          n \<notin> set (filter (suffix ''.pdf'') files) \<and>
          statusCode (fst (app cfg0 7 req' disk2)) = 200 \<and>
          body (fst (app cfg0 7 req' disk2)) = FileBody b"
    "\<forall>t (part :: file_part).
        list_all safe_char (originalname part) \<longrightarrow>
          send_resolve [storage_filename t part] = Entry (storage_filename t part)"
    by (elim exE conjE) (rule that)
  from l(1) d have files: "files = [''5-a.pdf'', ''6-notes.txt'']" by simp
  have b: "body (fst (app cfg0 7 ?q disk2)) =
     JsonBody (JObject
       [(''success'', JBool True),
        (''pdfs'', JArray [JObject [(''name'', JString ''5-a.pdf''),
                                    (''url'', JString ''http://localhost:3000/pdfs/5-a.pdf'')]])])"
    using l(2) files
    by (simp add: listing_json_def base_url_def port_def cfg0_def suffix_Cons)
  have "list_all safe_char (originalname txt_part)"
    by (simp add: txt_part_def safe_char_def)
  with l(4) n have r: "send_resolve [''6-notes.txt''] = Entry ''6-notes.txt''"
    by metis
  have h: "read_file ''6-notes.txt'' disk2 = Some [104, 105] \<and> \<not> suffix ''.pdf'' ''6-notes.txt'' \<and>
        req_method ?f = ''GET'' \<and> path ?f = [''pdfs'', ''6-notes.txt''] \<and>
        map lower_char ''pdfs'' = ''pdfs'' \<and> conditional ?f = Whole"
    by (simp add: read_file_def disk2_def get_req_def lower_char_def suffix_def)
  from l(3) have "read_file ''6-notes.txt'' disk2 = Some [104, 105] \<and>
        \<not> suffix ''.pdf'' ''6-notes.txt'' \<and>
        req_method ?f = ''GET'' \<and> path ?f = [''pdfs'', ''6-notes.txt''] \<and>
        map lower_char ''pdfs'' = ''pdfs'' \<and> conditional ?f = Whole \<and>
        send_resolve [''6-notes.txt''] = Entry ''6-notes.txt'' \<longrightarrow>
          ''6-notes.txt'' \<notin> set (filter (suffix ''.pdf'') files) \<and>
          statusCode (fst (app cfg0 7 ?f disk2)) = 200 \<and>
          body (fst (app cfg0 7 ?f disk2)) = FileBody [104, 105]"
    by (elim allE)
  with h r have "statusCode (fst (app cfg0 7 ?f disk2)) = 200 \<and>
          body (fst (app cfg0 7 ?f disk2)) = FileBody [104, 105]"
    by simp
  with ok b n show ?thesis by simp
qed

subsection \<open>Unreadable storage directory (C6)\<close>




text \<open>
  A regular file at the storage path is what the static mount serves for the bare path
  \<^verbatim>\<open>/pdfs\<close>: the listing handler is not reached for that request.
\<close>

lemma mount_point_regular_file:
  assumes "req_method req = ''GET''" and "map (map lower_char) (path req) = [''pdfs'']"
    and "upload_dir fs = RegularFile b"
  shows "app cfg now req fs = (send_file req b (cors new_response), fs)"
proof -
  from assms(2) have r: "route_path [''pdfs''] (path req)" by (simp add: route_path_def)
  from assms(2) have l: "last (path req) \<noteq> []"
    by (auto simp: map_eq_Cons_conv)
  from assms(1) have g: "is_get req" by (simp add: is_get_def)
  from static_mount_point [OF r g, of fs "cors new_response"] l assms(3)
  have "static_mount req fs (cors new_response) = Some (send_file req b (cors new_response))"
    by (simp add: is_directory_def read_root_def)
  with assms(1) show ?thesis by (rule app_static_answer)
qed



subsection \<open>Cross-origin headers (C7)\<close>

lemma cors_ok_cors: "cors_ok (cors res)"
  by (simp add: cors_ok_def cors_def getHeader_def setHeader_def update_conv')

lemma cors_ok_content_type: "cors_ok res \<Longrightarrow> cors_ok (setHeader ''Content-Type'' v res)"
  by (simp add: cors_ok_def getHeader_def setHeader_def update_conv')

lemma cors_ok_default: "cors_ok res \<Longrightarrow> cors_ok (default_content_type v res)"
  by (simp add: default_content_type_def cors_ok_content_type split: option.split)

lemma cors_ok_body: "cors_ok res \<Longrightarrow> cors_ok (res\<lparr> body := b \<rparr>)"
  by (simp add: cors_ok_def getHeader_def)

lemma cors_ok_json: "cors_ok res \<Longrightarrow> cors_ok (res_json j res)"
  by (simp add: res_json_def cors_ok_body cors_ok_default)

lemma cors_ok_send: "cors_ok res \<Longrightarrow> cors_ok (res_send h res)"
  by (simp add: res_send_def cors_ok_body cors_ok_default)

lemma cors_ok_status: "cors_ok res \<Longrightarrow> cors_ok (res_status c res)"
  by (simp add: cors_ok_def getHeader_def res_status_def)

lemma cors_ok_get_pdfs: "cors_ok res \<Longrightarrow> cors_ok (get_pdfs cfg fs res)"
  by (simp add: get_pdfs_def cors_ok_json cors_ok_status split: sum.split)

lemma cors_ok_callback: "cors_ok res \<Longrightarrow> cors_ok (upload_callback cfg err rf res)"
  by (simp add: upload_callback_def cors_ok_json cors_ok_status
           split: option.split upload_error.split)

lemma cors_ok_send_file: "cors_ok res \<Longrightarrow> cors_ok (send_file req b res)"
  by (simp add: send_file_def cors_ok_body cors_ok_status split: revalidation.split)

lemma cors_ok_location: "cors_ok res \<Longrightarrow> cors_ok (setHeader ''Location'' v res)"
  by (simp add: cors_ok_def getHeader_def setHeader_def update_conv')

lemma cors_ok_redirect: "cors_ok res \<Longrightarrow> cors_ok (redirect_to_slash req res)"
  by (simp add: redirect_to_slash_def cors_ok_body cors_ok_location cors_ok_status)

lemma cors_ok_static: "cors_ok res \<Longrightarrow> serve_static req rest fs res = Some r \<Longrightarrow> cors_ok r"
  by (auto simp: serve_static_def cors_ok_send_file cors_ok_redirect
           split: if_splits send_target.splits option.splits)

lemma cors_ok_allow: "cors_ok res \<Longrightarrow> cors_ok (setHeader ''Allow'' v res)"
  by (simp add: cors_ok_def getHeader_def setHeader_def update_conv')

lemma cors_ok_fallback: "cors_ok res \<Longrightarrow> cors_ok (express_fallback req res)"
  by (simp add: express_fallback_def cors_ok_send cors_ok_status cors_ok_allow
           split: option.split)

lemma cors_ok_router: "cors_ok res \<Longrightarrow> cors_ok (fst (router cfg now req fs res))"
  by (simp add: router_def post_upload_unfold get_root_def cors_ok_send cors_ok_get_pdfs
        cors_ok_callback cors_ok_fallback)

lemma cors_ok_transmit: "cors_ok r \<Longrightarrow> cors_ok (transmit req r)"
  by (simp add: transmit_def cors_ok_body)

lemma cors_ok_app: "cors_ok (fst (app cfg now req fs))"
proof -
  let ?res = "cors new_response"
  have c: "cors_ok ?res" by (rule cors_ok_cors)
  show ?thesis
  proof (cases "static_mount req fs ?res")
    case (Some r)
    then have "cors_ok r"
      using cors_ok_static [OF c] by (auto simp: static_mount_def split: option.splits)
    with Some show ?thesis by (simp add: app_def Let_def cors_ok_transmit)
  next
    case None
    with cors_ok_router [OF c, of cfg now req fs] show ?thesis
      by (cases "router cfg now req fs ?res") (simp add: app_def Let_def cors_ok_transmit)
  qed
qed

text \<open>
  C7. Every response of the application, whatever the method, the path, the body and the
  state of the disk, carries \<^verbatim>\<open>Access-Control-Allow-Origin: *\<close>,
  \<^verbatim>\<open>Access-Control-Allow-Methods: GET, POST\<close> and
  \<^verbatim>\<open>Access-Control-Allow-Headers: Content-Type\<close>.
\<close>

theorem cors_on_every_response:
  "getHeader ''Access-Control-Allow-Origin'' (fst (app cfg now req fs)) = Some ''*'' \<and>
   getHeader ''Access-Control-Allow-Methods'' (fst (app cfg now req fs)) = Some ''GET, POST'' \<and>
   getHeader ''Access-Control-Allow-Headers'' (fst (app cfg now req fs)) = Some ''Content-Type''"
  using cors_ok_app [of cfg now req fs] by (simp add: cors_ok_def)

theorem cors_on_every_response_witness:
  "statusCode (fst (app cfg0 7 (get_req [''nowhere'']) disk0)) = 404 \<and>
   getHeader ''Access-Control-Allow-Origin'' (fst (app cfg0 7 (get_req [''nowhere'']) disk0)) = Some ''*'' \<and>
   statusCode (fst (app cfg0 7 (post_req [FileEv txt_part]) disk0)) = 400 \<and>
   getHeader ''Access-Control-Allow-Origin'' (fst (app cfg0 7 (post_req [FileEv txt_part]) disk0)) = Some ''*'' \<and>
   statusCode (fst (app cfg0 7 (get_req [''pdfs'']) disk0)) = 301 \<and>
   getHeader ''Access-Control-Allow-Origin'' (fst (app cfg0 7 (get_req [''pdfs'']) disk0)) = Some ''*''"
proof -
  have 1: "statusCode (fst (app cfg0 7 (get_req [''nowhere'']) disk0)) = 404"
    by (simp add: app_eval route_eval get_req_def res_send_def res_status_def
          default_content_type_def getHeader_def setHeader_def cors_def new_response_def)
  have 2: "statusCode (fst (app cfg0 7 (post_req [FileEv txt_part]) disk0)) = 400"
    by (simp add: app_eval route_eval sample_defs upload_eval cors_def)
  have 3: "statusCode (fst (app cfg0 7 (get_req [''pdfs'']) disk0)) = 301"
    by (rule mount_point_redirect [THEN conjunct1])
       (simp_all add: is_get_def get_req_def lower_char_def is_directory_def disk0_def)
  from 1 2 3 cors_on_every_response [of cfg0 7 "get_req [''nowhere'']" disk0]
    cors_on_every_response [of cfg0 7 "post_req [FileEv txt_part]" disk0]
    cors_on_every_response [of cfg0 7 "get_req [''pdfs'']" disk0]
  show ?thesis by simp
qed

subsection \<open>Startup (C8)\<close>

text \<open>
  C8. At startup the program tests whether the storage directory exists. When it does,
  nothing is created and the server serves on the disk as it is. When it does not, the
  program makes exactly the non-recursive \<^verbatim>\<open>mkdirSync\<close> call: with a usable parent the
  server serves with an empty storage directory; with a missing parent the call fails
  (a recursive call would have succeeded) and whenever the call fails the process is
  crashed with that error, in no serving state.
\<close>

theorem startup_bootstrap:
  "(existsSync fs \<longrightarrow> start_server fs = Serving fs) \<and>
   (\<not> existsSync fs \<longrightarrow> bootstrap fs = mkdirSync False fs) \<and>
   (\<not> existsSync fs \<and> parent fs = ParentOk \<longrightarrow>
      start_server fs = Serving (fs\<lparr> upload_dir := Directory [] \<rparr>)) \<and>
   (\<not> existsSync fs \<and> parent fs = ParentAbsent \<longrightarrow>
      start_server fs = Crashed ENOENT \<and> (\<exists>fs'. mkdirSync True fs = Inr fs')) \<and>
   (\<forall>e. \<not> existsSync fs \<and> mkdirSync False fs = Inl e \<longrightarrow>
      start_server fs = Crashed e \<and> (\<forall>fs'. start_server fs \<noteq> Serving fs'))"
  by (auto simp: start_server_def bootstrap_def existsSync_def mkdirSync_def
           split: node.splits parent_state.splits)

theorem startup_bootstrap_witness:
  "existsSync disk0 \<and> start_server disk0 = Serving disk0 \<and>
   \<not> existsSync (no_disk ParentOk) \<and>
   start_server (no_disk ParentOk) =
     Serving \<lparr> parent = ParentOk, upload_dir = Directory [], new_entry_at = 0 \<rparr> \<and>
   mkdirSync False (no_disk ParentDenied) = Inl EACCES \<and>
   start_server (no_disk ParentDenied) = Crashed EACCES \<and>
   start_server (no_disk ParentAbsent) = Crashed ENOENT"
proof -
  have a: "existsSync disk0" by (simp add: existsSync_def disk0_def)
  have b: "\<not> existsSync (no_disk ParentOk) \<and> parent (no_disk ParentOk) = ParentOk"
    by (simp add: existsSync_def no_disk_def)
  have c: "\<not> existsSync (no_disk ParentDenied) \<and>
           mkdirSync False (no_disk ParentDenied) = Inl EACCES"
    by (simp add: existsSync_def mkdirSync_def no_disk_def)
  have d: "\<not> existsSync (no_disk ParentAbsent) \<and> parent (no_disk ParentAbsent) = ParentAbsent"
    by (simp add: existsSync_def no_disk_def)
  from a startup_bootstrap [of disk0] have 1: "start_server disk0 = Serving disk0" by blast
  from b startup_bootstrap [of "no_disk ParentOk"]
  have 2: "start_server (no_disk ParentOk) =
     Serving \<lparr> parent = ParentOk, upload_dir = Directory [], new_entry_at = 0 \<rparr>"
    by (simp add: no_disk_def)
  from c startup_bootstrap [of "no_disk ParentDenied"]
  have 3: "start_server (no_disk ParentDenied) = Crashed EACCES"
    by blast
  from d startup_bootstrap [of "no_disk ParentAbsent"]
  have 4: "start_server (no_disk ParentAbsent) = Crashed ENOENT"
    by blast
  from a b c 1 2 3 4 show ?thesis by simp
qed

subsection \<open>Effect of a request on the disk (C9)\<close>













text \<open>
  The upload route takes a POST whatever the case of the letters of the path, and with a
  trailing slash.
\<close>

lemma upload_route_any_case:
  assumes "req_method req = ''POST''" and "route_path [''upload''] (path req)"
  shows "app cfg now req fs = post_upload cfg now req fs (cors new_response)"
proof -
  have "static_mount req fs (cors new_response) = None"
    using assms(1) by (simp add: static_mount_def serve_static_def split: option.split)
  moreover have "\<not> is_get req" using assms(1) by (simp add: is_get_def)
  moreover have "transmit req r = r" for r using assms(1) by (simp add: transmit_def)
  ultimately show ?thesis
    using assms by (simp add: app_def router_def split: prod.split)
qed

lemma upload_route_upper_case:
  "route_path [''upload''] [''UPLOAD''] \<and> route_path [''upload''] [''Upload'', []]"
  by (simp add: route_path_def lower_char_def)

text \<open>
  A rejected request whose file was written over a stored file of the same name removes
  that file: the clean-up after the error unlinks the path that was written.
\<close>

lemma rejected_upload_deletes_overwritten:
  "\<not> is_success (fst (post_upload cfg0 7 (post_req [FileEv pdf_part, FileEv pdf_part]) disk1 new_response)) \<and>
   read_file ''7-a.pdf'' disk1 = Some [1, 2] \<and>
   file_names (snd (post_upload cfg0 7 (post_req [FileEv pdf_part, FileEv pdf_part]) disk1 new_response)) = []"
  by (simp add: sample_defs disk1_def upload_eval put_entry_def show_int_def show_nat.simps
        digit_char_def)




subsection \<open>Retrieval URLs (C10)\<close>









end
